theory Spec2Isabelle
  imports Complex_Main
begin

section \<open>GeoJsonDataSource: the GeoJSON ingestion pipeline\<close>

text \<open>
  A shallow embedding of \<^verbatim>\<open>Source/DynamicScene/GeoJsonDataSource.js\<close>.
  Every function of the source that the pipeline runs is a definition of the same name;
  mutation of the data source is explicit state passing, an exception is a value that
  carries the state reached when it was thrown, and a promise is a value that is
  fulfilled, rejected or still pending.
\<close>

subsection \<open>JavaScript values\<close>

text \<open>
  A field of a GeoJSON object holds a value of its GeoJSON type or is absent
  (\<^verbatim>\<open>undefined\<close>). Where the source tells \<^verbatim>\<open>null\<close> from
  \<^verbatim>\<open>undefined\<close> the field is a \<open>nullable\<close>; elsewhere an absent field is
  \<open>None\<close>.
\<close>

datatype 'a nullable = Undefined | Null | Val 'a

text \<open>
  Coordinate data is made of numbers and arrays. The numbers are never computed with
  here: they are only handed to the coordinate transform.
\<close>

datatype coords = CNum real | CArr "coords list"

record crs_properties =
  p_name :: "string option"
  p_href :: "string option"
  p_type :: "string option"

record crs =
  crs_type :: "string option"
  crs_properties :: "crs_properties nullable"

datatype geojson = GeoJson
  (gj_type: "string option")
  (gj_id: "string option")
  (gj_crs: "crs nullable")
  (gj_geometry: "geojson nullable")
  (gj_geometries: "geojson list option")
  (gj_features: "geojson list option")
  (gj_coordinates: "coords option")

text \<open>
  The errors of the pipeline, under the names the specification gives them; the message
  of the \<^verbatim>\<open>DeveloperError\<close> of the source is on the right.
  \<open>TypeError\<close> is the error of the JavaScript runtime on reading a property of
  \<^verbatim>\<open>undefined\<close> or \<^verbatim>\<open>null\<close>; \<open>ExternalError\<close> is an error of
  a transform or of a link resolver that the host registered.
\<close>

datatype error =
    MissingArgument \<comment> \<open>geoJson is required.\<close>
  | UnsupportedDocumentType "string option" \<comment> \<open>Unsupported GeoJSON object type:\<close>
  | InvalidCrsNull \<comment> \<open>crs is null.\<close>
  | InvalidCrsProperties \<comment> \<open>crs.properties is undefined.\<close>
  | UnknownCrsName "string option" \<comment> \<open>Unknown crs name:\<close>
  | UnresolvableCrsLink crs_properties \<comment> \<open>Unable to resolve crs link:\<close>
  | UnknownCrsType "string option" \<comment> \<open>Unknown crs type:\<close>
  | MissingGeometry \<comment> \<open>feature.geometry is required.\<close>
  | UnknownGeometryType "string option" \<comment> \<open>Unknown geometry type:\<close>
  | TypeError
  | ExternalError string

text \<open>
  \<^verbatim>\<open>table[key]\<close> with an absent key reads the property named
  \<^verbatim>\<open>"undefined"\<close>.
\<close>

definition js_key :: "string option \<Rightarrow> string" where
  "js_key k = (case k of None \<Rightarrow> ''undefined'' | Some s \<Rightarrow> s)"

text \<open>\<^verbatim>\<open>c[i]\<close>: a number has no indexed property, an array has its elements.\<close>

fun js_index :: "coords option \<Rightarrow> nat \<Rightarrow> error + coords option" where
  "js_index None i = Inl TypeError"
| "js_index (Some (CNum r)) i = Inr None"
| "js_index (Some (CArr xs)) i = Inr (if i < length xs then Some (xs ! i) else None)"

text \<open>
  The elements that \<^verbatim>\<open>for (i = 0; i < c.length; i++) ... c[i]\<close> visits:
  reading \<^verbatim>\<open>length\<close> of \<^verbatim>\<open>undefined\<close> throws, the
  \<^verbatim>\<open>length\<close> of a number is \<^verbatim>\<open>undefined\<close> and the loop runs
  no round.
\<close>

fun js_elements :: "coords option \<Rightarrow> error + coords list" where
  "js_elements None = Inl TypeError"
| "js_elements (Some (CNum r)) = Inr []"
| "js_elements (Some (CArr xs)) = Inr xs"

subsection \<open>Decimal rendering of the suffix counter\<close>

text \<open>
  \<^verbatim>\<open>id + "_" + i\<close> renders the counter in decimal (the counter stays far
  below the range where a JavaScript number prints in another form, since the probe
  ends after at most one round per entity of the store).
\<close>

definition digit_char :: "nat \<Rightarrow> char" where
  "digit_char d = char_of (48 + d)"

fun show_nat :: "nat \<Rightarrow> string" where
  "show_nat n = (if n < 10 then [digit_char n] else show_nat (n div 10) @ [digit_char (n mod 10)])"

declare show_nat.simps [simp del]

definition digit_val :: "char \<Rightarrow> nat" where
  "digit_val c = of_char c - 48"

definition read_nat :: "string \<Rightarrow> nat" where
  "read_nat s = foldl (\<lambda>a c. 10 * a + digit_val c) 0 s"

lemma digit_val_digit_char: "d < 10 \<Longrightarrow> digit_val (digit_char d) = d"
  by (simp add: digit_val_def digit_char_def)

lemma read_nat_show_nat: "read_nat (show_nat n) = n"
proof (induction n rule: show_nat.induct)
  case (1 n)
  show ?case
  proof (cases "n < 10")
    case True
    then show ?thesis
      by (simp add: show_nat.simps [of n] read_nat_def digit_val_digit_char)
  next
    case False
    with 1 have "read_nat (show_nat (n div 10)) = n div 10" by simp
    with False show ?thesis
      by (simp add: show_nat.simps [of n] read_nat_def digit_val_digit_char)
  qed
qed

lemma show_nat_inj: "show_nat m = show_nat n \<Longrightarrow> m = n"
  by (metis read_nat_show_nat)

subsection \<open>Entities and the Entity Store\<close>

text \<open>
  Modelled from the spec: \<^verbatim>\<open>createGuid\<close> is not part of the source file;
  the specification has it generate a fresh globally-unique identifier. A key of the
  store is therefore either a string that \<^verbatim>\<open>createObject\<close> built from a
  Feature's \<^verbatim>\<open>id\<close>, or the \<open>n\<close>-th identifier that
  \<^verbatim>\<open>createGuid\<close> handed out, which is different from every such string and
  from every other generated identifier.
\<close>

datatype key = Id string | Guid nat

text \<open>
  A \<^verbatim>\<open>DynamicObject\<close>, with the fields the pipeline touches: the
  back-reference to the GeoJSON node it came from, the three graphics a default template
  can bring, and the two position fields. An element of \<open>vertexPositions\<close> is
  \<open>None\<close> for an array slot that holds \<^verbatim>\<open>undefined\<close>.
  \<open>assignments\<close> is a ghost field: it counts the assignments to
  \<^verbatim>\<open>position\<close> and \<^verbatim>\<open>vertexPositions\<close> that the pipeline
  has executed on the object.
\<close>

record ('p, 'g) dynamic_object =
  obj_id :: key
  geoJson :: "geojson option"
  point :: "'g option"
  polyline :: "'g option"
  polygon :: "'g option"
  position :: "'p option"
  vertexPositions :: "'p option list option"
  assignments :: nat

definition new_DynamicObject :: "key \<Rightarrow> ('p, 'g) dynamic_object" where
  "new_DynamicObject k =
     \<lparr>obj_id = k, geoJson = None, point = None, polyline = None, polygon = None,
      position = None, vertexPositions = None, assignments = 0\<rparr>"

text \<open>
  A default style template (\<^verbatim>\<open>defaultPoint\<close>, \<^verbatim>\<open>defaultLine\<close>,
  \<^verbatim>\<open>defaultPolygon\<close>): the graphics it carries. The host may change the
  templates between loads, so they are fields of the state and not constants.
\<close>

record 'g template =
  t_point :: "'g option"
  t_polyline :: "'g option"
  t_polygon :: "'g option"

text \<open>
  Modelled from the spec: \<^verbatim>\<open>DynamicObject.merge\<close> is not part of the
  source file; the specification has it overlay the template, a field that is already
  set on the entity being kept.
\<close>

definition defaultValue :: "'a option \<Rightarrow> 'a option \<Rightarrow> 'a option" where
  "defaultValue a b = (case a of None \<Rightarrow> b | Some x \<Rightarrow> Some x)"

definition merge :: "'g template \<Rightarrow> ('p, 'g) dynamic_object \<Rightarrow> ('p, 'g) dynamic_object" where
  "merge t obj =
     obj\<lparr>point := defaultValue (point obj) (t_point t),
         polyline := defaultValue (polyline obj) (t_polyline t),
         polygon := defaultValue (polygon obj) (t_polygon t)\<rparr>"

text \<open>
  Modelled from the spec: \<^verbatim>\<open>DynamicObjectCollection\<close> (the Entity Store)
  is not part of the source file. It holds the entities by key, in the order of their
  creation; \<^verbatim>\<open>getObject\<close> looks a key up,
  \<^verbatim>\<open>getOrCreateObject\<close> returns the entity of a key and creates it at
  the end when there is none, \<^verbatim>\<open>clear\<close> empties the store.
\<close>

type_synonym ('p, 'g) collection = "(key \<times> ('p, 'g) dynamic_object) list"

definition getObject :: "('p, 'g) collection \<Rightarrow> key \<Rightarrow> ('p, 'g) dynamic_object option" where
  "getObject coll k = map_of coll k"

definition getOrCreateObject :: "key \<Rightarrow> ('p, 'g) collection \<Rightarrow> ('p, 'g) collection" where
  "getOrCreateObject k coll =
     (case getObject coll k of
        None \<Rightarrow> coll @ [(k, new_DynamicObject k)]
      | Some obj \<Rightarrow> coll)"

definition clear :: "('p, 'g) collection \<Rightarrow> ('p, 'g) collection" where
  "clear coll = []"

text \<open>
  A \<^verbatim>\<open>DynamicObject\<close> is a reference: a write through the variable
  \<^verbatim>\<open>dynamicObject\<close> is a write to the entity of that key in the store.
\<close>

definition update_object ::
  "key \<Rightarrow> (('p, 'g) dynamic_object \<Rightarrow> ('p, 'g) dynamic_object) \<Rightarrow> ('p, 'g) collection \<Rightarrow> ('p, 'g) collection" where
  "update_object k f coll = map (\<lambda>(k', obj). if k' = k then (k', f obj) else (k', obj)) coll"

text \<open>
  The state the pipeline works on: the data source (its store, its three templates, the
  number of times its \<^verbatim>\<open>changed\<close> event was raised) and the number of
  identifiers \<^verbatim>\<open>createGuid\<close> has handed out.
\<close>

record ('p, 'g) data_source =
  dynamicObjectCollection :: "('p, 'g) collection"
  defaultPoint :: "'g template"
  defaultLine :: "'g template"
  defaultPolygon :: "'g template"
  changed_raised :: nat
  guids_created :: nat

subsection \<open>The Entity Identity Resolver\<close>

text \<open>
  The \<^verbatim>\<open>while\<close> loop of \<^verbatim>\<open>createObject\<close>:
  \<open>finalId\<close> is the candidate, \<open>i\<close> the next suffix.
\<close>

definition suffixed :: "string \<Rightarrow> nat \<Rightarrow> string" where
  "suffixed ident i = ident @ ''_'' @ show_nat i"

lemma suffixed_inj: "suffixed ident i = suffixed ident j \<Longrightarrow> i = j"
  by (simp add: suffixed_def show_nat_inj)

lemma finite_suffix_indices: "finite {j. Id (suffixed ident j) \<in> K}" if "finite K"
proof -
  have "inj (\<lambda>j. Id (suffixed ident j))"
    by (auto simp: inj_def dest: suffixed_inj)
  then have "finite ((\<lambda>j. Id (suffixed ident j)) -` K)"
    using that by (rule finite_vimageI [rotated])
  then show ?thesis by (simp add: vimage_def)
qed

function unusedId :: "('p, 'g) collection \<Rightarrow> string \<Rightarrow> string \<Rightarrow> nat \<Rightarrow> string" where
  "unusedId coll ident finalId i =
     (if getObject coll (Id finalId) \<noteq> None
      then unusedId coll ident (suffixed ident i) (Suc i)
      else finalId)"
  by pat_completeness auto

lemma getObject_None_iff: "getObject coll k = None \<longleftrightarrow> k \<notin> fst ` set coll"
  by (simp add: getObject_def map_of_eq_None_iff)

lemma card_suffix_step:
  assumes "finite K"
  shows "card {j. i \<le> j \<and> Id (suffixed ident j) \<in> K} =
         card {j. Suc i \<le> j \<and> Id (suffixed ident j) \<in> K} +
         (if Id (suffixed ident i) \<in> K then 1 else 0)"
proof -
  let ?A = "{j. Suc i \<le> j \<and> Id (suffixed ident j) \<in> K}"
  have fin: "finite ?A"
    using finite_suffix_indices [OF assms, of ident] by (rule rev_finite_subset) auto
  show ?thesis
  proof (cases "Id (suffixed ident i) \<in> K")
    case True
    then have "{j. i \<le> j \<and> Id (suffixed ident j) \<in> K} = insert i ?A"
      by (auto simp: Suc_le_eq le_less)
    moreover have "i \<notin> ?A" by simp
    ultimately show ?thesis using fin True by simp
  next
    case False
    then have "{j. i \<le> j \<and> Id (suffixed ident j) \<in> K} = ?A"
      by (auto simp: Suc_le_eq le_less)
    then show ?thesis using False by simp
  qed
qed

text \<open>
  The probe ends: the suffixed candidates are pairwise different and the store is
  finite, so every round uses up one key of the store.
\<close>

termination unusedId
proof (relation "measure (\<lambda>(coll, ident, finalId, i).
    card {j. i \<le> j \<and> Id (suffixed ident j) \<in> fst ` set coll} +
    (if getObject coll (Id finalId) = None then 0 else 1))", goal_cases)
  case 1
  show ?case by simp
next
  case (2 coll ident finalId i)
  then show ?case
    using card_suffix_step [of "fst ` set coll" i ident]
    by (simp add: getObject_None_iff)
qed

declare unusedId.simps [simp del]

text \<open>
  \<^verbatim>\<open>createObject(geojson, dynamicObjectCollection)\<close>: the key is a generated
  identifier unless the node is a Feature with an \<^verbatim>\<open>id\<close>; the entity of
  that key is fetched or created and the node is stored in it. The result is the key
  (the reference the source returns) and the new state.
\<close>

definition createObject ::
  "geojson \<Rightarrow> ('p, 'g) data_source \<Rightarrow> key \<times> ('p, 'g) data_source" where
  "createObject geojson ds =
     (let (k, ds1) =
        (case gj_id geojson of
           None \<Rightarrow> (Guid (guids_created ds), ds\<lparr>guids_created := Suc (guids_created ds)\<rparr>)
         | Some ident \<Rightarrow>
             if gj_type geojson \<noteq> Some ''Feature''
             then (Guid (guids_created ds), ds\<lparr>guids_created := Suc (guids_created ds)\<rparr>)
             else (Id (unusedId (dynamicObjectCollection ds) ident ident 2), ds))
      in (k, ds1\<lparr>dynamicObjectCollection :=
                   update_object k (\<lambda>obj. obj\<lparr>geoJson := Some geojson\<rparr>)
                     (getOrCreateObject k (dynamicObjectCollection ds1))\<rparr>))"

subsection \<open>Exceptions and the coordinate transform\<close>

text \<open>
  A statement either completes (\<open>None\<close>) or throws (\<open>Some e\<close>); in both cases
  the state is the one reached. Nothing is rolled back.
\<close>

type_synonym ('p, 'g) outcome = "error option \<times> ('p, 'g) data_source"

text \<open>
  A coordinate transform takes the raw coordinate (\<open>None\<close> when the pipeline hands it
  \<^verbatim>\<open>undefined\<close>) and returns a position or throws.
\<close>

type_synonym 'p transform = "coords option \<Rightarrow> error + 'p"

text \<open>
  \<^verbatim>\<open>positions = new Array(c.length); for (i = 0; i < c.length; i++)
  positions[i] = crsFunction(c[i])\<close>, the block that the line and polygon handlers
  share. \<^verbatim>\<open>new Array(undefined)\<close>, for a number \<open>c\<close>, is the array with
  the one element \<^verbatim>\<open>undefined\<close>.
\<close>

fun transform_each :: "'p transform \<Rightarrow> coords list \<Rightarrow> error + 'p option list" where
  "transform_each crsFunction [] = Inr []"
| "transform_each crsFunction (c # cs) =
     (case crsFunction (Some c) of
        Inl e \<Rightarrow> Inl e
      | Inr p \<Rightarrow>
          (case transform_each crsFunction cs of
             Inl e \<Rightarrow> Inl e
           | Inr ps \<Rightarrow> Inr (Some p # ps)))"

fun positions_of :: "'p transform \<Rightarrow> coords option \<Rightarrow> error + 'p option list" where
  "positions_of crsFunction None = Inl TypeError"
| "positions_of crsFunction (Some (CNum r)) = Inr [None]"
| "positions_of crsFunction (Some (CArr cs)) = transform_each crsFunction cs"

definition on_object ::
  "key \<Rightarrow> (('p, 'g) dynamic_object \<Rightarrow> ('p, 'g) dynamic_object) \<Rightarrow> ('p, 'g) data_source \<Rightarrow> ('p, 'g) data_source" where
  "on_object k f ds = ds\<lparr>dynamicObjectCollection := update_object k f (dynamicObjectCollection ds)\<rparr>"

definition set_position :: "'p \<Rightarrow> ('p, 'g) dynamic_object \<Rightarrow> ('p, 'g) dynamic_object" where
  "set_position p obj = obj\<lparr>position := Some p, assignments := Suc (assignments obj)\<rparr>"

definition set_vertexPositions :: "'p option list \<Rightarrow> ('p, 'g) dynamic_object \<Rightarrow> ('p, 'g) dynamic_object" where
  "set_vertexPositions ps obj = obj\<lparr>vertexPositions := Some ps, assignments := Suc (assignments obj)\<rparr>"

subsection \<open>The Geometry Decoder\<close>

text \<open>
  Every handler of the source takes \<^verbatim>\<open>(dataSource, geojson, geometry,
  crsFunction, source)\<close>. \<^verbatim>\<open>source\<close> is passed along and never read, so
  it is left out; \<^verbatim>\<open>dataSource\<close> is the state.
\<close>

definition processPoint ::
  "'p transform \<Rightarrow> geojson \<Rightarrow> geojson \<Rightarrow> ('p, 'g) data_source \<Rightarrow> ('p, 'g) outcome" where
  "processPoint crsFunction geojson geometry ds =
     (let (k, ds1) = createObject geojson ds;
          ds2 = on_object k (merge (defaultPoint ds1)) ds1
      in case crsFunction (gj_coordinates geometry) of
           Inl e \<Rightarrow> (Some e, ds2)
         | Inr p \<Rightarrow> (None, on_object k (set_position p) ds2))"

fun processMultiPoint_loop ::
  "'p transform \<Rightarrow> geojson \<Rightarrow> coords list \<Rightarrow> ('p, 'g) data_source \<Rightarrow> ('p, 'g) outcome" where
  "processMultiPoint_loop crsFunction geojson [] ds = (None, ds)"
| "processMultiPoint_loop crsFunction geojson (c # cs) ds =
     (let (k, ds1) = createObject geojson ds;
          ds2 = on_object k (merge (defaultPoint ds1)) ds1
      in case crsFunction (Some c) of
           Inl e \<Rightarrow> (Some e, ds2)
         | Inr p \<Rightarrow> processMultiPoint_loop crsFunction geojson cs (on_object k (set_position p) ds2))"

definition processMultiPoint ::
  "'p transform \<Rightarrow> geojson \<Rightarrow> geojson \<Rightarrow> ('p, 'g) data_source \<Rightarrow> ('p, 'g) outcome" where
  "processMultiPoint crsFunction geojson geometry ds =
     (case js_elements (gj_coordinates geometry) of
        Inl e \<Rightarrow> (Some e, ds)
      | Inr coordinates \<Rightarrow> processMultiPoint_loop crsFunction geojson coordinates ds)"

definition processLineString ::
  "'p transform \<Rightarrow> geojson \<Rightarrow> geojson \<Rightarrow> ('p, 'g) data_source \<Rightarrow> ('p, 'g) outcome" where
  "processLineString crsFunction geojson geometry ds =
     (let (k, ds1) = createObject geojson ds
      in case positions_of crsFunction (gj_coordinates geometry) of
           Inl e \<Rightarrow> (Some e, ds1)
         | Inr positions \<Rightarrow>
             (None, on_object k (set_vertexPositions positions)
                      (on_object k (merge (defaultLine ds1)) ds1)))"

fun processMultiLineString_loop ::
  "'p transform \<Rightarrow> geojson \<Rightarrow> coords list \<Rightarrow> ('p, 'g) data_source \<Rightarrow> ('p, 'g) outcome" where
  "processMultiLineString_loop crsFunction geojson [] ds = (None, ds)"
| "processMultiLineString_loop crsFunction geojson (lineString # rest) ds =
     (let (k, ds1) = createObject geojson ds
      in case positions_of crsFunction (Some lineString) of
           Inl e \<Rightarrow> (Some e, ds1)
         | Inr positions \<Rightarrow>
             processMultiLineString_loop crsFunction geojson rest
               (on_object k (set_vertexPositions positions)
                  (on_object k (merge (defaultLine ds1)) ds1)))"

definition processMultiLineString ::
  "'p transform \<Rightarrow> geojson \<Rightarrow> geojson \<Rightarrow> ('p, 'g) data_source \<Rightarrow> ('p, 'g) outcome" where
  "processMultiLineString crsFunction geojson geometry ds =
     (case js_elements (gj_coordinates geometry) of
        Inl e \<Rightarrow> (Some e, ds)
      | Inr lineStrings \<Rightarrow> processMultiLineString_loop crsFunction geojson lineStrings ds)"

text \<open>
  \<^verbatim>\<open>processPolygon\<close> reads the outer ring,
  \<^verbatim>\<open>geometry.coordinates[0]\<close>, after it has created the entity.
\<close>

definition processPolygon ::
  "'p transform \<Rightarrow> geojson \<Rightarrow> geojson \<Rightarrow> ('p, 'g) data_source \<Rightarrow> ('p, 'g) outcome" where
  "processPolygon crsFunction geojson geometry ds =
     (let (k, ds1) = createObject geojson ds
      in case js_index (gj_coordinates geometry) 0 of
           Inl e \<Rightarrow> (Some e, ds1)
         | Inr coordinates \<Rightarrow>
             (case positions_of crsFunction coordinates of
                Inl e \<Rightarrow> (Some e, ds1)
              | Inr positions \<Rightarrow>
                  (None, on_object k (set_vertexPositions positions)
                           (on_object k (merge (defaultPolygon ds1)) ds1))))"

text \<open>
  \<^verbatim>\<open>processMultiPolygon\<close>: the loop over \<^verbatim>\<open>q\<close> runs one round
  per vertex of the outer ring, and each round computes all the positions, merges the
  template and assigns \<^verbatim>\<open>vertexPositions\<close>.
\<close>

fun processMultiPolygon_rounds ::
  "'p transform \<Rightarrow> key \<Rightarrow> coords option \<Rightarrow> nat \<Rightarrow> ('p, 'g) data_source \<Rightarrow> ('p, 'g) outcome" where
  "processMultiPolygon_rounds crsFunction k outerRing 0 ds = (None, ds)"
| "processMultiPolygon_rounds crsFunction k outerRing (Suc n) ds =
     (case positions_of crsFunction outerRing of
        Inl e \<Rightarrow> (Some e, ds)
      | Inr positions \<Rightarrow>
          processMultiPolygon_rounds crsFunction k outerRing n
            (on_object k (set_vertexPositions positions)
               (on_object k (merge (defaultPolygon ds)) ds)))"

fun processMultiPolygon_loop ::
  "'p transform \<Rightarrow> geojson \<Rightarrow> coords list \<Rightarrow> ('p, 'g) data_source \<Rightarrow> ('p, 'g) outcome" where
  "processMultiPolygon_loop crsFunction geojson [] ds = (None, ds)"
| "processMultiPolygon_loop crsFunction geojson (polygon_i # rest) ds =
     (let (k, ds1) = createObject geojson ds
      in case js_index (Some polygon_i) 0 of
           Inl e \<Rightarrow> (Some e, ds1)
         | Inr outerRing \<Rightarrow>
             (case js_elements outerRing of
                Inl e \<Rightarrow> (Some e, ds1)
              | Inr vs \<Rightarrow>
                  (case processMultiPolygon_rounds crsFunction k outerRing (length vs) ds1 of
                     (Some e, ds2) \<Rightarrow> (Some e, ds2)
                   | (None, ds2) \<Rightarrow> processMultiPolygon_loop crsFunction geojson rest ds2)))"

definition processMultiPolygon ::
  "'p transform \<Rightarrow> geojson \<Rightarrow> geojson \<Rightarrow> ('p, 'g) data_source \<Rightarrow> ('p, 'g) outcome" where
  "processMultiPolygon crsFunction geojson geometry ds =
     (case js_elements (gj_coordinates geometry) of
        Inl e \<Rightarrow> (Some e, ds)
      | Inr polygons \<Rightarrow> processMultiPolygon_loop crsFunction geojson polygons ds)"

subsection \<open>The JavaScript environment\<close>

text \<open>
  A promise is fulfilled, rejected, or never settles. \<open>NotThenable\<close> is a value
  that is no promise: it has no \<^verbatim>\<open>then\<close>, so calling
  \<^verbatim>\<open>then\<close> on it throws a TypeError. A link resolver is called with the
  \<^verbatim>\<open>properties\<close> of the link; it throws, or returns a promise of a
  transform (or, against its contract, a value that is no promise).
\<close>

datatype 'a promise = Fulfilled 'a | Rejected error | Pending | NotThenable

type_synonym 'p resolver = "crs_properties \<Rightarrow> error + 'p transform promise"

text \<open>
  The tables of the source (\<^verbatim>\<open>geoJsonObjectTypes\<close>,
  \<^verbatim>\<open>geometryTypes\<close>, \<^verbatim>\<open>crsNames\<close>,
  \<^verbatim>\<open>crsLinkHrefs\<close>, \<^verbatim>\<open>crsLinkTypes\<close>) are object
  literals, and \<^verbatim>\<open>table[name]\<close> finds the properties of the literal and
  also the members that every object inherits from \<^verbatim>\<open>Object.prototype\<close>
  (\<^verbatim>\<open>toString\<close>, \<^verbatim>\<open>constructor\<close>, ...): for these names
  the value read is not \<^verbatim>\<open>undefined\<close>. Which names are inherited belongs
  to the JavaScript engine, so it is a parameter. The pipeline calls what it reads from
  a table in one of three ways, and an inherited member is described by what each call
  does:
  \<^item> as a handler, \<^verbatim>\<open>m(dataSource, geoJson, geometry, crsFunction, source)\<close>:
    it completes or throws (the members of \<^verbatim>\<open>Object.prototype\<close> write to
    none of their arguments, so the data source stays as it is);
  \<^item> as a transform, \<^verbatim>\<open>m(coordinates)\<close>;
  \<^item> as a link resolver, \<^verbatim>\<open>m(properties)\<close>.
\<close>

record 'p member =
  called_as_handler :: "error option"
  called_as_transform :: "'p transform"
  called_as_resolver :: "'p resolver"

text \<open>
  \<^verbatim>\<open>Cartographic.fromDegrees\<close> and
  \<^verbatim>\<open>Ellipsoid.WGS84.cartographicToCartesian\<close> are not part of the source
  file (and compute in floating point); they are parameters too. Each argument of
  \<^verbatim>\<open>fromDegrees\<close> is an element of the coordinate, or
  \<^verbatim>\<open>undefined\<close>. \<open>object_prototype\<close> gives the inherited member
  of a name, \<open>None\<close> when no member of that name is inherited.
\<close>

record ('c, 'p) core =
  fromDegrees :: "coords option \<Rightarrow> coords option \<Rightarrow> coords option \<Rightarrow> 'c"
  cartographicToCartesian :: "'c \<Rightarrow> 'p"
  object_prototype :: "string \<Rightarrow> 'p member option"

text \<open>
  \<^verbatim>\<open>table[name]\<close> on an object literal: the own property of that name, else
  the inherited one, else \<^verbatim>\<open>undefined\<close> (\<open>None\<close>).
\<close>

definition js_lookup :: "(string \<times> 'a) list \<Rightarrow> (string \<Rightarrow> 'a option) \<Rightarrow> string \<Rightarrow> 'a option" where
  "js_lookup own inherited name =
     (case map_of own name of
        Some v \<Rightarrow> Some v
      | None \<Rightarrow> inherited name)"

subsection \<open>The dispatch tables\<close>

text \<open>
  What a dispatch table holds: one of the handlers of the source, or a member of
  \<^verbatim>\<open>Object.prototype\<close> with the outcome of calling it as a handler.
\<close>

datatype geometry_handler =
    ProcessGeometryCollection | ProcessLineString | ProcessMultiLineString
  | ProcessMultiPoint | ProcessMultiPolygon | ProcessPoint | ProcessPolygon
  | ObjectPrototypeMember "error option"

datatype object_handler =
    ProcessFeature | ProcessFeatureCollection | Geometry geometry_handler

definition inherited_handler :: "('c, 'p) core \<Rightarrow> string \<Rightarrow> geometry_handler option" where
  "inherited_handler core name =
     map_option (\<lambda>m. ObjectPrototypeMember (called_as_handler m)) (object_prototype core name)"

definition geometryTypes :: "('c, 'p) core \<Rightarrow> string \<Rightarrow> geometry_handler option" where
  "geometryTypes core = js_lookup
     [(''GeometryCollection'', ProcessGeometryCollection),
      (''LineString'', ProcessLineString),
      (''MultiLineString'', ProcessMultiLineString),
      (''MultiPoint'', ProcessMultiPoint),
      (''MultiPolygon'', ProcessMultiPolygon),
      (''Point'', ProcessPoint),
      (''Polygon'', ProcessPolygon)]
     (inherited_handler core)"

definition geoJsonObjectTypes :: "('c, 'p) core \<Rightarrow> string \<Rightarrow> object_handler option" where
  "geoJsonObjectTypes core = js_lookup
     [(''Feature'', ProcessFeature),
      (''FeatureCollection'', ProcessFeatureCollection),
      (''GeometryCollection'', Geometry ProcessGeometryCollection),
      (''LineString'', Geometry ProcessLineString),
      (''MultiLineString'', Geometry ProcessMultiLineString),
      (''MultiPoint'', Geometry ProcessMultiPoint),
      (''MultiPolygon'', Geometry ProcessMultiPolygon),
      (''Point'', Geometry ProcessPoint),
      (''Polygon'', Geometry ProcessPolygon)]
     (\<lambda>name. map_option Geometry (inherited_handler core name))"

subsection \<open>The Document Dispatcher\<close>

lemma size_geometries [termination_simp]:
  "gj_geometries g = Some gs \<Longrightarrow> size_list size gs < size g"
  by (cases g) simp

text \<open>
  \<^verbatim>\<open>processGeometryCollection\<close> looks the handler of every element up in
  \<^verbatim>\<open>geometryTypes\<close> and calls it with the same \<^verbatim>\<open>geoJson\<close> argument;
  \<open>geometryHandler\<close> is that call. What the table holds is a handler of the source
  or an inherited member; the call of an inherited member completes or throws as the
  environment says.
\<close>

fun geometryHandler ::
    "('c, 'p) core \<Rightarrow> geometry_handler \<Rightarrow> 'p transform \<Rightarrow> geojson \<Rightarrow> geojson \<Rightarrow> ('p, 'g) data_source \<Rightarrow> ('p, 'g) outcome"
  and processGeometryCollection ::
    "('c, 'p) core \<Rightarrow> 'p transform \<Rightarrow> geojson \<Rightarrow> geojson \<Rightarrow> ('p, 'g) data_source \<Rightarrow> ('p, 'g) outcome"
  and processGeometryCollection_loop ::
    "('c, 'p) core \<Rightarrow> 'p transform \<Rightarrow> geojson \<Rightarrow> geojson list \<Rightarrow> ('p, 'g) data_source \<Rightarrow> ('p, 'g) outcome" where
  "geometryHandler core ProcessGeometryCollection crsFunction geojson geometry ds =
     processGeometryCollection core crsFunction geojson geometry ds"
| "geometryHandler core ProcessLineString crsFunction geojson geometry ds =
     processLineString crsFunction geojson geometry ds"
| "geometryHandler core ProcessMultiLineString crsFunction geojson geometry ds =
     processMultiLineString crsFunction geojson geometry ds"
| "geometryHandler core ProcessMultiPoint crsFunction geojson geometry ds =
     processMultiPoint crsFunction geojson geometry ds"
| "geometryHandler core ProcessMultiPolygon crsFunction geojson geometry ds =
     processMultiPolygon crsFunction geojson geometry ds"
| "geometryHandler core ProcessPoint crsFunction geojson geometry ds =
     processPoint crsFunction geojson geometry ds"
| "geometryHandler core ProcessPolygon crsFunction geojson geometry ds =
     processPolygon crsFunction geojson geometry ds"
| "geometryHandler core (ObjectPrototypeMember r) crsFunction geojson geometry ds = (r, ds)"
| "processGeometryCollection core crsFunction geojson geometryCollection ds =
     (case gj_geometries geometryCollection of
        None \<Rightarrow> (Some TypeError, ds)
      | Some geometries \<Rightarrow> processGeometryCollection_loop core crsFunction geojson geometries ds)"
| "processGeometryCollection_loop core crsFunction geojson [] ds = (None, ds)"
| "processGeometryCollection_loop core crsFunction geojson (geometry # rest) ds =
     (case geometryTypes core (js_key (gj_type geometry)) of
        None \<Rightarrow> (Some (UnknownGeometryType (gj_type geometry)), ds)
      | Some handler \<Rightarrow>
          (case geometryHandler core handler crsFunction geojson geometry ds of
             (Some e, ds1) \<Rightarrow> (Some e, ds1)
           | (None, ds1) \<Rightarrow> processGeometryCollection_loop core crsFunction geojson rest ds1))"

definition processFeature ::
  "('c, 'p) core \<Rightarrow> 'p transform \<Rightarrow> geojson \<Rightarrow> ('p, 'g) data_source \<Rightarrow> ('p, 'g) outcome" where
  "processFeature core crsFunction feature ds =
     (case gj_geometry feature of
        Undefined \<Rightarrow> (Some MissingGeometry, ds)
      | Null \<Rightarrow> (None, snd (createObject feature ds))
      | Val geometry \<Rightarrow>
          (case geometryTypes core (js_key (gj_type geometry)) of
             None \<Rightarrow> (Some (UnknownGeometryType (gj_type geometry)), ds)
           | Some handler \<Rightarrow> geometryHandler core handler crsFunction feature geometry ds))"

fun processFeatureCollection_loop ::
  "('c, 'p) core \<Rightarrow> 'p transform \<Rightarrow> geojson list \<Rightarrow> ('p, 'g) data_source \<Rightarrow> ('p, 'g) outcome" where
  "processFeatureCollection_loop core crsFunction [] ds = (None, ds)"
| "processFeatureCollection_loop core crsFunction (feature # rest) ds =
     (case processFeature core crsFunction feature ds of
        (Some e, ds1) \<Rightarrow> (Some e, ds1)
      | (None, ds1) \<Rightarrow> processFeatureCollection_loop core crsFunction rest ds1)"

definition processFeatureCollection ::
  "('c, 'p) core \<Rightarrow> 'p transform \<Rightarrow> geojson \<Rightarrow> ('p, 'g) data_source \<Rightarrow> ('p, 'g) outcome" where
  "processFeatureCollection core crsFunction featureCollection ds =
     (case gj_features featureCollection of
        None \<Rightarrow> (Some TypeError, ds)
      | Some features \<Rightarrow> processFeatureCollection_loop core crsFunction features ds)"

text \<open>
  The call \<^verbatim>\<open>typeHandler(that, geoJson, geoJson, crsFunction, source)\<close> of
  \<^verbatim>\<open>load\<close>: the document is both the identity source and the geometry.
\<close>

fun typeHandler ::
  "('c, 'p) core \<Rightarrow> object_handler \<Rightarrow> 'p transform \<Rightarrow> geojson \<Rightarrow> ('p, 'g) data_source \<Rightarrow> ('p, 'g) outcome" where
  "typeHandler core ProcessFeature crsFunction doc ds = processFeature core crsFunction doc ds"
| "typeHandler core ProcessFeatureCollection crsFunction doc ds = processFeatureCollection core crsFunction doc ds"
| "typeHandler core (Geometry handler) crsFunction doc ds = geometryHandler core handler crsFunction doc doc ds"

subsection \<open>The CRS Registry\<close>

definition defaultCrsFunction :: "('c, 'p) core \<Rightarrow> 'p transform" where
  "defaultCrsFunction core coordinates =
     (case (js_index coordinates 0, js_index coordinates 1, js_index coordinates 2) of
        (Inr c0, Inr c1, Inr c2) \<Rightarrow> Inr (cartographicToCartesian core (fromDegrees core c0 c1 c2))
      | _ \<Rightarrow> Inl TypeError)"

text \<open>
  The three tables \<^verbatim>\<open>GeoJsonDataSource.crsNames\<close>,
  \<^verbatim>\<open>crsLinkHrefs\<close> and \<^verbatim>\<open>crsLinkTypes\<close>, each given by what
  \<^verbatim>\<open>table[name]\<close> reads (\<open>None\<close> for \<^verbatim>\<open>undefined\<close>). The
  host may add to them, so \<^verbatim>\<open>load\<close> takes the tables as they stand when it
  is called; \<open>initial_registry\<close> is their content in the source: the two names of
  \<^verbatim>\<open>crsNames\<close>, two empty object literals, and in all three what an object
  literal inherits.
\<close>

record 'p registry =
  crsNames :: "string \<Rightarrow> 'p transform option"
  crsLinkHrefs :: "string \<Rightarrow> 'p resolver option"
  crsLinkTypes :: "string \<Rightarrow> 'p resolver option"

definition inherited_transform :: "('c, 'p) core \<Rightarrow> string \<Rightarrow> 'p transform option" where
  "inherited_transform core name = map_option called_as_transform (object_prototype core name)"

definition inherited_resolver :: "('c, 'p) core \<Rightarrow> string \<Rightarrow> 'p resolver option" where
  "inherited_resolver core name = map_option called_as_resolver (object_prototype core name)"

definition initial_registry :: "('c, 'p) core \<Rightarrow> 'p registry" where
  "initial_registry core =
     \<lparr>crsNames = js_lookup
        [(''urn:ogc:def:crs:OGC:1.3:CRS84'', defaultCrsFunction core),
         (''EPSG:4326'', defaultCrsFunction core)]
        (inherited_transform core),
      crsLinkHrefs = js_lookup [] (inherited_resolver core),
      crsLinkTypes = js_lookup [] (inherited_resolver core)\<rparr>"

subsection \<open>The Pipeline Driver\<close>

text \<open>
  The block of \<^verbatim>\<open>load\<close> under ``Check for a Coordinate Reference System'':
  it throws, or leaves a promise of the transform in \<^verbatim>\<open>crsPromise\<close>.
\<close>

definition crsPromise ::
  "('c, 'p) core \<Rightarrow> 'p registry \<Rightarrow> geojson \<Rightarrow> error + 'p transform promise" where
  "crsPromise core reg doc =
     (case gj_crs doc of
        Undefined \<Rightarrow> Inr (Fulfilled (defaultCrsFunction core))
      | Null \<Rightarrow> Inl InvalidCrsNull
      | Val c \<Rightarrow>
          (case crs_properties c of
             Undefined \<Rightarrow> Inl InvalidCrsProperties
           | properties \<Rightarrow>
               if crs_type c = Some ''name'' then
                 (case properties of
                    Val p \<Rightarrow>
                      (case crsNames reg (js_key (p_name p)) of
                         None \<Rightarrow> Inl (UnknownCrsName (p_name p))
                       | Some crsFunction \<Rightarrow> Inr (Fulfilled crsFunction))
                  | _ \<Rightarrow> Inl TypeError)
               else if crs_type c = Some ''link'' then
                 (case properties of
                    Val p \<Rightarrow>
                      (case (case crsLinkHrefs reg (js_key (p_href p)) of
                               None \<Rightarrow> crsLinkTypes reg (js_key (p_type p))
                             | Some handler \<Rightarrow> Some handler) of
                         None \<Rightarrow> Inl (UnresolvableCrsLink p)
                       | Some handler \<Rightarrow> handler p)
                  | _ \<Rightarrow> Inl TypeError)
               else Inl (UnknownCrsType (crs_type c))))"

text \<open>
  \<^verbatim>\<open>load\<close> up to its \<^verbatim>\<open>return\<close>: the two argument checks, the
  CRS block, and \<^verbatim>\<open>this._dynamicObjectCollection.clear()\<close>. It throws, or
  it has cleared the store and holds the handler, the document and the promise of the
  transform.
\<close>

definition load_begin ::
  "('c, 'p) core \<Rightarrow> 'p registry \<Rightarrow> geojson nullable \<Rightarrow> ('p, 'g) data_source \<Rightarrow>
   (error + object_handler \<times> geojson \<times> 'p transform promise) \<times> ('p, 'g) data_source" where
  "load_begin core reg geoJson_arg ds =
     (case geoJson_arg of
        Undefined \<Rightarrow> (Inl MissingArgument, ds)
      | Null \<Rightarrow> (Inl TypeError, ds)
      | Val doc \<Rightarrow>
          (case geoJsonObjectTypes core (js_key (gj_type doc)) of
             None \<Rightarrow> (Inl (UnsupportedDocumentType (gj_type doc)), ds)
           | Some handler \<Rightarrow>
               (case crsPromise core reg doc of
                  Inl e \<Rightarrow> (Inl e, ds)
                | Inr promise \<Rightarrow>
                    (Inr (handler, doc, promise),
                     ds\<lparr>dynamicObjectCollection := clear (dynamicObjectCollection ds)\<rparr>))))"

text \<open>
  \<^verbatim>\<open>crsPromise.then(function(crsFunction) {...})\<close>: the callback runs when
  the promise is fulfilled; an exception in it rejects the promise that
  \<^verbatim>\<open>load\<close> returned; a rejected \<^verbatim>\<open>crsPromise\<close> rejects it
  too, and the callback does not run. When \<^verbatim>\<open>crsPromise\<close> is no promise,
  the call of \<^verbatim>\<open>then\<close> itself throws.
\<close>

definition load_then ::
  "('c, 'p) core \<Rightarrow> object_handler \<Rightarrow> geojson \<Rightarrow> 'p transform promise \<Rightarrow> ('p, 'g) data_source \<Rightarrow>
   (error + unit promise) \<times> ('p, 'g) data_source" where
  "load_then core handler doc promise ds =
     (case promise of
        Pending \<Rightarrow> (Inr Pending, ds)
      | Rejected e \<Rightarrow> (Inr (Rejected e), ds)
      | NotThenable \<Rightarrow> (Inl TypeError, ds)
      | Fulfilled crsFunction \<Rightarrow>
          (case typeHandler core handler crsFunction doc ds of
             (Some e, ds1) \<Rightarrow> (Inr (Rejected e), ds1)
           | (None, ds1) \<Rightarrow> (Inr (Fulfilled ()), ds1\<lparr>changed_raised := Suc (changed_raised ds1)\<rparr>)))"

text \<open>
  \<^verbatim>\<open>load(geoJson, source)\<close>, with no other load in between: the exception
  it throws, or the promise it returns as it stands once the transform is there, and the
  state then.
\<close>

definition load ::
  "('c, 'p) core \<Rightarrow> 'p registry \<Rightarrow> geojson nullable \<Rightarrow> ('p, 'g) data_source \<Rightarrow>
   (error + unit promise) \<times> ('p, 'g) data_source" where
  "load core reg geoJson_arg ds =
     (case load_begin core reg geoJson_arg ds of
        (Inl e, ds1) \<Rightarrow> (Inl e, ds1)
      | (Inr (handler, doc, promise), ds1) \<Rightarrow> load_then core handler doc promise ds1)"

section \<open>Properties of the pipeline\<close>

subsection \<open>Concrete inputs\<close>

text \<open>
  A data source that holds one entity of an earlier load, and stand-ins for the two
  functions of the ellipsoid: here a position is the longitude element of the coordinate.
  Of the members of \<^verbatim>\<open>Object.prototype\<close> the example environment has
  three: \<^verbatim>\<open>constructor\<close> (the function \<^verbatim>\<open>Object\<close>,
  which returns its first argument), \<^verbatim>\<open>toString\<close> (which returns a
  string whatever it is called on; as a position the string stands as \<open>None\<close>)
  and \<^verbatim>\<open>valueOf\<close> (which throws a TypeError when it is called without
  a receiver). None of the three returns a promise.
\<close>

definition example_source :: "(coords option, string) data_source" where
  "example_source =
     \<lparr>dynamicObjectCollection = [(Id ''earlier'', new_DynamicObject (Id ''earlier''))],
      defaultPoint = \<lparr>t_point = Some ''point'', t_polyline = None, t_polygon = None\<rparr>,
      defaultLine = \<lparr>t_point = None, t_polyline = Some ''line'', t_polygon = None\<rparr>,
      defaultPolygon = \<lparr>t_point = None, t_polyline = Some ''outline'', t_polygon = Some ''fill''\<rparr>,
      changed_raised = 0, guids_created = 0\<rparr>"

definition example_core :: "(coords option, coords option) core" where
  "example_core =
     \<lparr>fromDegrees = (\<lambda>lon lat h. lon), cartographicToCartesian = (\<lambda>c. c),
      object_prototype = map_of
        [(''constructor'',
            \<lparr>called_as_handler = None, called_as_transform = (\<lambda>c. Inr c),
             called_as_resolver = (\<lambda>p. Inr NotThenable)\<rparr>),
         (''toString'',
            \<lparr>called_as_handler = None, called_as_transform = (\<lambda>c. Inr None),
             called_as_resolver = (\<lambda>p. Inr NotThenable)\<rparr>),
         (''valueOf'',
            \<lparr>called_as_handler = Some TypeError, called_as_transform = (\<lambda>c. Inl TypeError),
             called_as_resolver = (\<lambda>p. Inl TypeError)\<rparr>)]\<rparr>"

text \<open>A Feature whose geometry is null, and one without a geometry field.\<close>

definition placeholder_feature :: geojson where
  "placeholder_feature = GeoJson (Some ''Feature'') (Some ''abc'') Undefined Null None None None"

definition broken_feature :: geojson where
  "broken_feature = GeoJson (Some ''Feature'') (Some ''abc'') Undefined Undefined None None None"

text \<open>A Feature with a Point and no id, and a Feature with a MultiPoint of two coordinates.\<close>

definition point_feature :: geojson where
  "point_feature =
     GeoJson (Some ''Feature'') None Undefined
       (Val (GeoJson (Some ''Point'') None Undefined Undefined None None (Some (CArr [CNum 1, CNum 2]))))
       None None None"


subsection \<open>Facts about the Entity Identity Resolver\<close>

definition keys :: "('p, 'g) data_source \<Rightarrow> key set" where
  "keys ds = fst ` set (dynamicObjectCollection ds)"

text \<open>
  The identifiers that \<^verbatim>\<open>createGuid\<close> will hand out are not in the store:
  every generated key of the store was handed out before.
\<close>

definition guids_fresh :: "('p, 'g) data_source \<Rightarrow> bool" where
  "guids_fresh ds \<longleftrightarrow> (\<forall>n. Guid n \<in> keys ds \<longrightarrow> n < guids_created ds)"

lemma unusedId_unused: "getObject coll (Id (unusedId coll ident finalId i)) = None"
proof (induction coll ident finalId i rule: unusedId.induct)
  case (1 coll ident finalId i)
  then show ?case
    by (subst unusedId.simps) (simp split: if_splits)
qed

lemma unusedId_free: "getObject coll (Id finalId) = None \<Longrightarrow> unusedId coll ident finalId i = finalId"
  by (subst unusedId.simps) simp

lemma unusedId_taken:
  "getObject coll (Id finalId) \<noteq> None \<Longrightarrow>
   unusedId coll ident finalId i = unusedId coll ident (suffixed ident i) (Suc i)"
  by (subst unusedId.simps) simp

lemma update_object_append_new:
  assumes "getObject coll k = None"
  shows "update_object k f (coll @ [(k, obj)]) = coll @ [(k, f obj)]"
proof -
  from assms have "\<forall>x \<in> set coll. fst x \<noteq> k"
    by (auto simp: getObject_None_iff)
  then have "map (\<lambda>(k', obj). if k' = k then (k', f obj) else (k', obj)) coll = coll"
    by (induction coll) auto
  then show ?thesis by (simp add: update_object_def)
qed

lemma createObject_key_unused:
  "getObject (dynamicObjectCollection ds) (fst (createObject g ds)) = None" if "guids_fresh ds"
proof (cases "gj_id g")
  case None
  with that show ?thesis
    by (auto simp: createObject_def guids_fresh_def keys_def getObject_None_iff)
next
  case (Some ident)
  with that show ?thesis
    by (auto simp: createObject_def guids_fresh_def keys_def unusedId_unused getObject_None_iff [symmetric])
qed

lemma createObject_appends:
  assumes "guids_fresh ds"
  shows "dynamicObjectCollection (snd (createObject g ds)) =
         dynamicObjectCollection ds @
           [(fst (createObject g ds), (new_DynamicObject (fst (createObject g ds)))\<lparr>geoJson := Some g\<rparr>)]"
  using createObject_key_unused [OF assms, of g]
  by (auto simp: createObject_def Let_def getOrCreateObject_def update_object_append_new
      split: option.splits)

lemma createObject_fields [simp]:
  "defaultPoint (snd (createObject g ds)) = defaultPoint ds"
  "defaultLine (snd (createObject g ds)) = defaultLine ds"
  "defaultPolygon (snd (createObject g ds)) = defaultPolygon ds"
  "changed_raised (snd (createObject g ds)) = changed_raised ds"
  by (simp_all add: createObject_def Let_def split: option.splits)

lemma on_object_fields [simp]:
  "defaultPoint (on_object k f ds) = defaultPoint ds"
  "defaultLine (on_object k f ds) = defaultLine ds"
  "defaultPolygon (on_object k f ds) = defaultPolygon ds"
  "changed_raised (on_object k f ds) = changed_raised ds"
  "guids_created (on_object k f ds) = guids_created ds"
  by (simp_all add: on_object_def)

lemma keys_on_object [simp]: "keys (on_object k f ds) = keys ds"
  by (force simp: keys_def on_object_def update_object_def split: if_splits)

lemma guids_fresh_on_object [simp]: "guids_fresh (on_object k f ds) = guids_fresh ds"
  by (simp add: guids_fresh_def)

lemma guids_fresh_createObject: "guids_fresh ds \<Longrightarrow> guids_fresh (snd (createObject g ds))"
  unfolding guids_fresh_def keys_def
  by (subst createObject_appends)
     (auto simp: guids_fresh_def keys_def createObject_def Let_def less_Suc_eq split: option.splits)

lemma guids_fresh_cleared [simp]: "guids_fresh (ds\<lparr>dynamicObjectCollection := []\<rparr>)"
  by (simp add: guids_fresh_def keys_def)

text \<open>The first entity that is created after the store was cleared.\<close>

lemma createObject_empty:
  assumes "dynamicObjectCollection ds = []"
  shows "createObject g ds =
     (let k = (if gj_id g = None \<or> gj_type g \<noteq> Some ''Feature'' then Guid (guids_created ds)
               else Id (the (gj_id g)))
      in (k, ds\<lparr>dynamicObjectCollection := [(k, (new_DynamicObject k)\<lparr>geoJson := Some g\<rparr>)],
                guids_created := (if gj_id g = None \<or> gj_type g \<noteq> Some ''Feature''
                                  then Suc (guids_created ds) else guids_created ds)\<rparr>))"
  using assms
  by (auto simp: createObject_def Let_def getOrCreateObject_def getObject_def update_object_def
      unusedId_free split: option.splits)

lemma createObject_cleared:
  "createObject g (ds\<lparr>dynamicObjectCollection := []\<rparr>) =
     (let k = (if gj_id g = None \<or> gj_type g \<noteq> Some ''Feature'' then Guid (guids_created ds)
               else Id (the (gj_id g)))
      in (k, ds\<lparr>dynamicObjectCollection := [(k, (new_DynamicObject k)\<lparr>geoJson := Some g\<rparr>)],
                guids_created := (if gj_id g = None \<or> gj_type g \<noteq> Some ''Feature''
                                  then Suc (guids_created ds) else guids_created ds)\<rparr>))"
  by (simp add: createObject_empty Let_def)
text \<open>
  What \<^verbatim>\<open>createObject\<close> does to a store that holds no identifier of the
  future: it appends one entity under an unused key, and the later writes through
  \<^verbatim>\<open>dynamicObject\<close> reach that entity only.
\<close>

lemma createObject_cases:
  assumes "guids_fresh ds"
  obtains k ds1 where "createObject g ds = (k, ds1)"
    and "getObject (dynamicObjectCollection ds) k = None"
    and "dynamicObjectCollection ds1 =
           dynamicObjectCollection ds @ [(k, (new_DynamicObject k)\<lparr>geoJson := Some g\<rparr>)]"
    and "defaultPoint ds1 = defaultPoint ds" and "defaultLine ds1 = defaultLine ds"
    and "defaultPolygon ds1 = defaultPolygon ds" and "guids_fresh ds1"
proof -
  obtain k ds1 where c: "createObject g ds = (k, ds1)"
    by (cases "createObject g ds")
  show thesis
  proof (rule that [OF c])
    show "getObject (dynamicObjectCollection ds) k = None"
      using createObject_key_unused [OF assms, of g] c by simp
    show "dynamicObjectCollection ds1 =
           dynamicObjectCollection ds @ [(k, (new_DynamicObject k)\<lparr>geoJson := Some g\<rparr>)]"
      using createObject_appends [OF assms, of g] c by simp
    show "defaultPoint ds1 = defaultPoint ds" "defaultLine ds1 = defaultLine ds"
      "defaultPolygon ds1 = defaultPolygon ds"
      using createObject_fields [of g ds] c by simp_all
    show "guids_fresh ds1"
      using guids_fresh_createObject [OF assms, of g] c by simp
  qed
qed

lemma on_object_new:
  assumes "dynamicObjectCollection ds1 = coll @ [(k, obj)]" and "getObject coll k = None"
  shows "dynamicObjectCollection (on_object k f ds1) = coll @ [(k, f obj)]"
  using assms by (simp add: on_object_def update_object_append_new)

text \<open>The example environment inherits nothing under any other name.\<close>

lemma example_core_inherits_nothing:
  assumes "name \<notin> set [''constructor'', ''toString'', ''valueOf'']"
  shows "object_prototype example_core name = None"
    and "inherited_handler example_core name = None"
    and "inherited_transform example_core name = None"
    and "inherited_resolver example_core name = None"
  using assms
  by (simp_all add: example_core_def inherited_handler_def inherited_transform_def inherited_resolver_def)

text \<open>The definitions that a run of \<^verbatim>\<open>load\<close> on a concrete document unfolds.\<close>

lemmas load_unfold =
  load_def load_begin_def load_then_def crsPromise_def geoJsonObjectTypes_def geometryTypes_def
  js_lookup_def inherited_handler_def
  js_key_def clear_def createObject_empty on_object_def update_object_def merge_def defaultValue_def
  set_position_def set_vertexPositions_def new_DynamicObject_def defaultCrsFunction_def Let_def

lemmas handlers_unfold =
  processPoint_def processMultiPoint_def processLineString_def processMultiLineString_def
  processPolygon_def processMultiPolygon_def processFeature_def processFeatureCollection_def

text \<open>The suffixes of the first rounds of the probe, as strings.\<close>

lemma digit_char_values:
  "digit_char 0 = CHR ''0''" "digit_char 1 = CHR ''1''" "digit_char 2 = CHR ''2''"
  "digit_char 3 = CHR ''3''" "digit_char 4 = CHR ''4''" "digit_char 5 = CHR ''5''"
  "digit_char 6 = CHR ''6''" "digit_char 7 = CHR ''7''" "digit_char 8 = CHR ''8''"
  "digit_char 9 = CHR ''9''" "digit_char (Suc 0) = CHR ''1''"
  by (simp_all add: digit_char_def char_of_def bit_iff_odd)

lemma show_nat_digit: "n < 10 \<Longrightarrow> show_nat n = [digit_char n]"
  by (simp add: show_nat.simps)

lemma suffixed_small:
  "suffixed ident 2 = ident @ ''_2''" "suffixed ident 3 = ident @ ''_3''"
  "suffixed ident 4 = ident @ ''_4''"
  by (simp_all add: suffixed_def show_nat_digit digit_char_values)

text \<open>The keys of the store after a write and after \<^verbatim>\<open>createObject\<close>.\<close>

lemma keys_update_object: "fst ` set (update_object k f coll) = fst ` set coll"
  by (force simp: update_object_def split: if_splits)

lemma keys_getOrCreateObject: "fst ` set (getOrCreateObject k coll) = insert k (fst ` set coll)"
  by (auto simp: getOrCreateObject_def getObject_def split: option.splits dest: map_of_SomeD
      intro: rev_image_eqI)

lemma keys_createObject: "keys (snd (createObject g ds)) = insert (fst (createObject g ds)) (keys ds)"
  by (simp add: createObject_def keys_def keys_update_object keys_getOrCreateObject Let_def
      split: option.splits)

subsection \<open>Argument checks of load\<close>

text \<open>
  The property names of \<^verbatim>\<open>geoJsonObjectTypes\<close> itself.
\<close>

definition dispatcher_entries :: "string list" where
  "dispatcher_entries =
     [''Feature'', ''FeatureCollection'', ''GeometryCollection'', ''LineString'',
      ''MultiLineString'', ''MultiPoint'', ''MultiPolygon'', ''Point'', ''Polygon'']"

text \<open>
  A document whose type is the name of an inherited member, and one whose type is
  neither in the table nor inherited.
\<close>

definition toString_doc :: geojson where
  "toString_doc = GeoJson (Some ''toString'') None Undefined Undefined None None None"

definition widget_doc :: geojson where
  "widget_doc = GeoJson (Some ''Widget'') None Undefined Undefined None None None"

lemma geoJsonObjectTypes_inherited:
  assumes "name \<notin> set dispatcher_entries" and "object_prototype core name = Some m"
  shows "geoJsonObjectTypes core name = Some (Geometry (ObjectPrototypeMember (called_as_handler m)))"
  using assms
  by (simp add: geoJsonObjectTypes_def js_lookup_def inherited_handler_def dispatcher_entries_def)

lemma geoJsonObjectTypes_undefined:
  "geoJsonObjectTypes core name = None \<longleftrightarrow>
     name \<notin> set dispatcher_entries \<and> object_prototype core name = None"
  by (simp add: geoJsonObjectTypes_def js_lookup_def inherited_handler_def dispatcher_entries_def)

text \<open>
  C7. The claim holds for a call without a document, which throws MissingArgument with
  the data source as it was, and for a type that \<^verbatim>\<open>geoJsonObjectTypes[type]\<close>
  reads as \<^verbatim>\<open>undefined\<close>, which throws UnsupportedDocumentType with the data
  source as it was. It fails for a type string that has no entry in the table and is the
  name of a member that the table inherits from \<^verbatim>\<open>Object.prototype\<close>
  (such as \<^verbatim>\<open>toString\<close>): the check of line 231 lets it pass, so
  \<^verbatim>\<open>load\<close> does not throw UnsupportedDocumentType, the Entity Store is
  cleared, and (for a document without crs) the inherited member is called as the
  handler: the promise of \<^verbatim>\<open>load\<close> is fulfilled, with the changed event
  raised, when that call returns, and rejected when it throws.
\<close>

theorem load_accepts_inherited_type_name:
  "load core reg Undefined ds = (Inl MissingArgument, ds) \<and>
   (geoJsonObjectTypes core (js_key (gj_type doc)) = None \<longrightarrow>
      load core reg (Val doc) ds = (Inl (UnsupportedDocumentType (gj_type doc)), ds)) \<and>
   (gj_type doc = Some name \<and> name \<notin> set dispatcher_entries \<and>
    object_prototype core name = Some m \<and> gj_crs doc = Undefined \<longrightarrow>
      load core reg (Val doc) ds =
        (case called_as_handler m of
           None \<Rightarrow> (Inr (Fulfilled ()),
                     ds\<lparr>dynamicObjectCollection := [], changed_raised := Suc (changed_raised ds)\<rparr>)
         | Some e \<Rightarrow> (Inr (Rejected e), ds\<lparr>dynamicObjectCollection := []\<rparr>)))"
proof (intro conjI impI)
  show "load core reg Undefined ds = (Inl MissingArgument, ds)"
    by (simp add: load_def load_begin_def)
next
  assume "geoJsonObjectTypes core (js_key (gj_type doc)) = None"
  then show "load core reg (Val doc) ds = (Inl (UnsupportedDocumentType (gj_type doc)), ds)"
    by (simp add: load_def load_begin_def)
next
  assume a: "gj_type doc = Some name \<and> name \<notin> set dispatcher_entries \<and>
    object_prototype core name = Some m \<and> gj_crs doc = Undefined"
  then have h: "geoJsonObjectTypes core (js_key (gj_type doc)) =
      Some (Geometry (ObjectPrototypeMember (called_as_handler m)))"
    using geoJsonObjectTypes_inherited [of name core m] by (simp add: js_key_def)
  from a have "gj_crs doc = Undefined"
    by simp
  with h show "load core reg (Val doc) ds =
           (case called_as_handler m of
              None \<Rightarrow> (Inr (Fulfilled ()),
                        ds\<lparr>dynamicObjectCollection := [], changed_raised := Suc (changed_raised ds)\<rparr>)
            | Some e \<Rightarrow> (Inr (Rejected e), ds\<lparr>dynamicObjectCollection := []\<rparr>))"
    by (simp add: load_def load_begin_def load_then_def crsPromise_def clear_def split: option.splits)
qed

theorem load_accepts_inherited_type_name_witness:
  "load example_core (initial_registry example_core) Undefined example_source =
     (Inl MissingArgument, example_source) \<and>
   geoJsonObjectTypes example_core (js_key (gj_type widget_doc)) = None \<and>
   load example_core (initial_registry example_core) (Val widget_doc) example_source =
     (Inl (UnsupportedDocumentType (Some ''Widget'')), example_source) \<and>
   ''toString'' \<notin> set dispatcher_entries \<and>
   map_option called_as_handler (object_prototype example_core ''toString'') = Some None \<and>
   load example_core (initial_registry example_core) (Val toString_doc) example_source =
     (Inr (Fulfilled ()), example_source\<lparr>dynamicObjectCollection := [], changed_raised := 1\<rparr>) \<and>
   dynamicObjectCollection example_source \<noteq> []"
proof -
  have w: "geoJsonObjectTypes example_core (js_key (gj_type widget_doc)) = None"
    by (simp add: geoJsonObjectTypes_def js_lookup_def inherited_handler_def js_key_def
        widget_doc_def example_core_def)
  have n: "''toString'' \<notin> set dispatcher_entries"
    by (simp add: dispatcher_entries_def)
  obtain m where m: "object_prototype example_core ''toString'' = Some m" "called_as_handler m = None"
    by (simp add: example_core_def)
  have c: "changed_raised example_source = 0"
    by (simp add: example_source_def)
  have t: "gj_type toString_doc = Some ''toString''" "gj_crs toString_doc = Undefined"
    "gj_type widget_doc = Some ''Widget''"
    by (simp_all add: toString_doc_def widget_doc_def)
  have s: "dynamicObjectCollection example_source \<noteq> []"
    by (simp add: example_source_def)
  show ?thesis
    using load_accepts_inherited_type_name [of example_core "initial_registry example_core" example_source
        widget_doc "''toString''" m]
      load_accepts_inherited_type_name [of example_core "initial_registry example_core" example_source
        toString_doc "''toString''" m]
      w n m c t s
    by simp
qed

subsection \<open>When load clears the Entity Store\<close>

text \<open>
  A registry whose only link resolver returns a promise that is rejected later, and a
  Point document that links to it.
\<close>

definition rejecting_registry :: "coords option registry" where
  "rejecting_registry =
     \<lparr>crsNames = js_lookup [] (inherited_transform example_core),
      crsLinkHrefs = js_lookup
        [(''http://example.com/crs'', (\<lambda>p. Inr (Rejected (ExternalError ''unreachable''))))]
        (inherited_resolver example_core),
      crsLinkTypes = js_lookup [] (inherited_resolver example_core)\<rparr>"

definition linked_point :: geojson where
  "linked_point =
     GeoJson (Some ''Point'') None
       (Val \<lparr>crs_type = Some ''link'',
             crs_properties = Val \<lparr>p_name = None, p_href = Some ''http://example.com/crs'',
                                    p_type = Some ''proj4''\<rparr>\<rparr>)
       Undefined None None (Some (CArr [CNum 1, CNum 2]))"

definition null_crs_point :: geojson where
  "null_crs_point =
     GeoJson (Some ''Point'') None Null Undefined None None (Some (CArr [CNum 1, CNum 2]))"

text \<open>
  C1, as stated, fails: the link resolver's promise is rejected, so CRS resolution has
  failed, and the store that held an entity is empty afterwards.
\<close>

theorem load_rejected_link_clears_store:
  "fst (load example_core rejecting_registry (Val linked_point) example_source) =
     Inr (Rejected (ExternalError ''unreachable'')) \<and>
   dynamicObjectCollection (snd (load example_core rejecting_registry (Val linked_point) example_source)) = [] \<and>
   dynamicObjectCollection example_source \<noteq> []"
  by (simp add: load_def load_begin_def load_then_def crsPromise_def geoJsonObjectTypes_def js_lookup_def js_key_def
      rejecting_registry_def linked_point_def example_source_def clear_def)

text \<open>
  C1, amended. For a document of a recognized type: when the CRS block throws,
  \<^verbatim>\<open>load\<close> throws that error and the data source is untouched; this is
  so for a \<^verbatim>\<open>crs\<close> that is null, that has no properties, that names an
  unknown CRS or that has an unknown type. When the CRS block yields a promise, the store
  is already cleared when \<^verbatim>\<open>load\<close> returns, whatever becomes of the
  promise; and when that promise is rejected or never settles, the promise of
  \<^verbatim>\<open>load\<close> is rejected with the same error, respectively never
  settles, and the store is empty.
\<close>

theorem load_clears_when_promise_obtained:
  assumes "geoJsonObjectTypes core (js_key (gj_type doc)) = Some handler"
  shows "(crsPromise core reg doc = Inl e \<longrightarrow> load core reg (Val doc) ds = (Inl e, ds)) \<and>
         (crsPromise core reg doc = Inr promise \<longrightarrow>
            load_begin core reg (Val doc) ds =
              (Inr (handler, doc, promise), ds\<lparr>dynamicObjectCollection := []\<rparr>)) \<and>
         (crsPromise core reg doc = Inr (Rejected e) \<longrightarrow>
            load core reg (Val doc) ds = (Inr (Rejected e), ds\<lparr>dynamicObjectCollection := []\<rparr>)) \<and>
         (crsPromise core reg doc = Inr Pending \<longrightarrow>
            load core reg (Val doc) ds = (Inr Pending, ds\<lparr>dynamicObjectCollection := []\<rparr>)) \<and>
         (gj_crs doc = Null \<longrightarrow> load core reg (Val doc) ds = (Inl InvalidCrsNull, ds)) \<and>
         (gj_crs doc = Val c \<and> crs_properties c = Undefined \<longrightarrow>
            load core reg (Val doc) ds = (Inl InvalidCrsProperties, ds)) \<and>
         (gj_crs doc = Val c \<and> crs_properties c = Val p \<and> crs_type c = Some ''name'' \<and>
          crsNames reg (js_key (p_name p)) = None \<longrightarrow>
            load core reg (Val doc) ds = (Inl (UnknownCrsName (p_name p)), ds)) \<and>
         (gj_crs doc = Val c \<and> crs_properties c = Val p \<and> crs_type c \<noteq> Some ''name'' \<and>
          crs_type c \<noteq> Some ''link'' \<longrightarrow>
            load core reg (Val doc) ds = (Inl (UnknownCrsType (crs_type c)), ds))"
  using assms by (simp add: load_def load_begin_def load_then_def clear_def crsPromise_def)

theorem load_clears_when_promise_obtained_witness:
  "geoJsonObjectTypes example_core (js_key (gj_type null_crs_point)) = Some (Geometry ProcessPoint) \<and>
   crsPromise example_core rejecting_registry null_crs_point = Inl InvalidCrsNull \<and>
   load example_core rejecting_registry (Val null_crs_point) example_source =
     (Inl InvalidCrsNull, example_source) \<and>
   crsPromise example_core rejecting_registry linked_point = Inr (Rejected (ExternalError ''unreachable'')) \<and>
   load_begin example_core rejecting_registry (Val linked_point) example_source =
     (Inr (Geometry ProcessPoint, linked_point, Rejected (ExternalError ''unreachable'')),
      example_source\<lparr>dynamicObjectCollection := []\<rparr>) \<and>
   load example_core rejecting_registry (Val linked_point) example_source =
     (Inr (Rejected (ExternalError ''unreachable'')), example_source\<lparr>dynamicObjectCollection := []\<rparr>)"
proof -
  have t1: "geoJsonObjectTypes example_core (js_key (gj_type null_crs_point)) = Some (Geometry ProcessPoint)"
    by (simp add: geoJsonObjectTypes_def js_lookup_def js_key_def null_crs_point_def)
  have t2: "geoJsonObjectTypes example_core (js_key (gj_type linked_point)) = Some (Geometry ProcessPoint)"
    by (simp add: geoJsonObjectTypes_def js_lookup_def js_key_def linked_point_def)
  have c1: "crsPromise example_core rejecting_registry null_crs_point = Inl InvalidCrsNull"
    by (simp add: crsPromise_def null_crs_point_def)
  have n: "gj_crs null_crs_point = Null"
    by (simp add: null_crs_point_def)
  have c2: "crsPromise example_core rejecting_registry linked_point =
      Inr (Rejected (ExternalError ''unreachable''))"
    by (simp add: crsPromise_def linked_point_def rejecting_registry_def js_key_def js_lookup_def)
  show ?thesis
    using load_clears_when_promise_obtained [OF t1, where reg = rejecting_registry
        and e = "InvalidCrsNull" and ds = example_source
        and promise = "Rejected (ExternalError ''unreachable'')"]
      load_clears_when_promise_obtained [OF t2, where reg = rejecting_registry
        and e = "ExternalError ''unreachable''" and ds = example_source
        and promise = "Rejected (ExternalError ''unreachable'')"]
      t1 c1 c2 n
    by simp
qed

subsection \<open>Assignments to the position fields\<close>

text \<open>
  A MultiPolygon of one polygon whose outer ring is a triangle, and the Polygon with the
  same ring.
\<close>

definition triangle :: coords where
  "triangle = CArr [CArr [CNum 0, CNum 0], CArr [CNum 1, CNum 0], CArr [CNum 1, CNum 1]]"

definition triangle_multipolygon :: geojson where
  "triangle_multipolygon =
     GeoJson (Some ''MultiPolygon'') None Undefined Undefined None None (Some (CArr [CArr [triangle]]))"

definition triangle_polygon :: geojson where
  "triangle_polygon =
     GeoJson (Some ''Polygon'') None Undefined Undefined None None (Some (CArr [triangle]))"

definition empty_ring_multipolygon :: geojson where
  "empty_ring_multipolygon =
     GeoJson (Some ''MultiPolygon'') None Undefined Undefined None None (Some (CArr [CArr [CArr []]]))"

text \<open>
  C2 fails on the code. The entity of the MultiPolygon has had its
  \<^verbatim>\<open>vertexPositions\<close> assigned three times, once per vertex of the ring,
  where \<^verbatim>\<open>processPolygon\<close> assigns it once for the same ring; and the
  entity of a polygon whose outer ring is empty has had none assigned.
\<close>

theorem multipolygon_assigns_per_vertex:
  "map (\<lambda>(k, obj). assignments obj)
     (dynamicObjectCollection
        (snd (load example_core (initial_registry example_core) (Val triangle_multipolygon) example_source))) = [3] \<and>
   map (\<lambda>(k, obj). assignments obj)
     (dynamicObjectCollection
        (snd (load example_core (initial_registry example_core) (Val triangle_polygon) example_source))) = [1] \<and>
   map (\<lambda>(k, obj). (assignments obj, vertexPositions obj))
     (dynamicObjectCollection
        (snd (load example_core (initial_registry example_core) (Val empty_ring_multipolygon) example_source))) =
     [(0, None)]"
  by (simp add: load_unfold handlers_unfold triangle_multipolygon_def triangle_polygon_def triangle_def
      empty_ring_multipolygon_def example_source_def example_core_def)

subsection \<open>Geometries with an empty coordinate array\<close>

definition empty_polygon :: geojson where
  "empty_polygon = GeoJson (Some ''Polygon'') None Undefined Undefined None None (Some (CArr []))"

text \<open>
  C3, as stated, fails: decoding the Polygon whose \<^verbatim>\<open>coordinates\<close> is the
  empty array throws. The entity has been created by then; it has no positions (not an
  empty sequence of them) and no style.
\<close>

theorem empty_polygon_throws:
  "processPolygon (defaultCrsFunction example_core) empty_polygon empty_polygon
     (example_source\<lparr>dynamicObjectCollection := []\<rparr>) =
     (Some TypeError,
      example_source\<lparr>dynamicObjectCollection :=
         [(Guid 0, \<lparr>obj_id = Guid 0, geoJson = Some empty_polygon, point = None, polyline = None,
             polygon = None, position = None, vertexPositions = None, assignments = 0\<rparr>)],
         guids_created := 1\<rparr>) \<and>
   fst (load example_core (initial_registry example_core) (Val empty_polygon) example_source) =
     Inr (Rejected TypeError)"
  by (simp add: load_unfold handlers_unfold empty_polygon_def example_source_def)

definition empty_geometry :: "string \<Rightarrow> geojson" where
  "empty_geometry t = GeoJson (Some t) None Undefined Undefined None None (Some (CArr []))"

text \<open>
  C3, amended. For a geometry whose \<^verbatim>\<open>coordinates\<close> is the empty array:
  the MultiPoint, MultiLineString and MultiPolygon handlers complete and leave the data
  source as it was (zero entities); the LineString handler completes and has added one
  entity, with the line template merged and an empty sequence of positions; the Point
  handler, when the transform returns a position for the empty coordinate, completes and
  has added one entity with that single position; the Polygon handler adds the entity
  and then throws a TypeError on the missing outer ring, the entity being left without
  positions and without style. A Polygon whose outer ring is the empty array makes the
  Polygon handler complete with one entity that has an empty sequence of positions.
\<close>

theorem empty_coordinates_decoding:
  assumes "gj_coordinates geometry = Some (CArr [])"
  shows "processMultiPoint crsFunction g geometry ds = (None, ds) \<and>
         processMultiLineString crsFunction g geometry ds = (None, ds) \<and>
         processMultiPolygon crsFunction g geometry ds = (None, ds) \<and>
         (guids_fresh ds \<longrightarrow>
            (let k = fst (createObject g ds); t = defaultLine ds
             in k \<notin> keys ds \<and>
                fst (processLineString crsFunction g geometry ds) = None \<and>
                dynamicObjectCollection (snd (processLineString crsFunction g geometry ds)) =
                  dynamicObjectCollection ds @
                    [(k, \<lparr>obj_id = k, geoJson = Some g, point = t_point t, polyline = t_polyline t,
                            polygon = t_polygon t, position = None, vertexPositions = Some [],
                            assignments = 1\<rparr>)])) \<and>
         (guids_fresh ds \<and> crsFunction (Some (CArr [])) = Inr p \<longrightarrow>
            (let k = fst (createObject g ds); t = defaultPoint ds
             in k \<notin> keys ds \<and>
                fst (processPoint crsFunction g geometry ds) = None \<and>
                dynamicObjectCollection (snd (processPoint crsFunction g geometry ds)) =
                  dynamicObjectCollection ds @
                    [(k, \<lparr>obj_id = k, geoJson = Some g, point = t_point t, polyline = t_polyline t,
                            polygon = t_polygon t, position = Some p, vertexPositions = None,
                            assignments = 1\<rparr>)])) \<and>
         (guids_fresh ds \<longrightarrow>
            (let k = fst (createObject g ds)
             in k \<notin> keys ds \<and>
                fst (processPolygon crsFunction g geometry ds) = Some TypeError \<and>
                dynamicObjectCollection (snd (processPolygon crsFunction g geometry ds)) =
                  dynamicObjectCollection ds @
                    [(k, \<lparr>obj_id = k, geoJson = Some g, point = None, polyline = None,
                            polygon = None, position = None, vertexPositions = None,
                            assignments = 0\<rparr>)])) \<and>
         (guids_fresh ds \<and> gj_coordinates ring_only = Some (CArr [CArr []]) \<longrightarrow>
            (let k = fst (createObject g ds); t = defaultPolygon ds
             in k \<notin> keys ds \<and>
                fst (processPolygon crsFunction g ring_only ds) = None \<and>
                dynamicObjectCollection (snd (processPolygon crsFunction g ring_only ds)) =
                  dynamicObjectCollection ds @
                    [(k, \<lparr>obj_id = k, geoJson = Some g, point = t_point t, polyline = t_polyline t,
                            polygon = t_polygon t, position = None, vertexPositions = Some [],
                            assignments = 1\<rparr>)]))"
proof -
  have multi: "processMultiPoint crsFunction g geometry ds = (None, ds)"
    "processMultiLineString crsFunction g geometry ds = (None, ds)"
    "processMultiPolygon crsFunction g geometry ds = (None, ds)"
    using assms by (simp_all add: processMultiPoint_def processMultiLineString_def processMultiPolygon_def)
  have single: "k \<notin> keys ds \<and> dynamicObjectCollection (on_object k f2 (on_object k f1 ds1)) =
      dynamicObjectCollection ds @ [(k, f2 (f1 ((new_DynamicObject k)\<lparr>geoJson := Some g\<rparr>)))] \<and>
      dynamicObjectCollection ds1 = dynamicObjectCollection ds @ [(k, (new_DynamicObject k)\<lparr>geoJson := Some g\<rparr>)]"
    if "createObject g ds = (k, ds1)" and "guids_fresh ds" for k ds1 f1 f2
  proof -
    from that(2) obtain k' ds1' where c: "createObject g ds = (k', ds1')"
      and u: "getObject (dynamicObjectCollection ds) k' = None"
      and a: "dynamicObjectCollection ds1' =
           dynamicObjectCollection ds @ [(k', (new_DynamicObject k')\<lparr>geoJson := Some g\<rparr>)]"
      by (rule createObject_cases)
    from c that(1) have e: "k' = k" "ds1' = ds1" by simp_all
    show ?thesis
      using u a on_object_new [OF on_object_new [OF a u, of f1] u, of f2] unfolding e
      by (simp add: keys_def getObject_None_iff)
  qed
  have line: "guids_fresh ds \<longrightarrow>
            (let k = fst (createObject g ds); t = defaultLine ds
             in k \<notin> keys ds \<and>
                fst (processLineString crsFunction g geometry ds) = None \<and>
                dynamicObjectCollection (snd (processLineString crsFunction g geometry ds)) =
                  dynamicObjectCollection ds @
                    [(k, \<lparr>obj_id = k, geoJson = Some g, point = t_point t, polyline = t_polyline t,
                            polygon = t_polygon t, position = None, vertexPositions = Some [],
                            assignments = 1\<rparr>)])"
  proof
    assume f: "guids_fresh ds"
    obtain k ds1 where c: "createObject g ds = (k, ds1)" by (cases "createObject g ds")
    have t: "defaultLine ds1 = defaultLine ds" using createObject_fields(2) [of g ds] c by simp
    show "let k = fst (createObject g ds); t = defaultLine ds
             in k \<notin> keys ds \<and>
                fst (processLineString crsFunction g geometry ds) = None \<and>
                dynamicObjectCollection (snd (processLineString crsFunction g geometry ds)) =
                  dynamicObjectCollection ds @
                    [(k, \<lparr>obj_id = k, geoJson = Some g, point = t_point t, polyline = t_polyline t,
                            polygon = t_polygon t, position = None, vertexPositions = Some [],
                            assignments = 1\<rparr>)]"
      using single [OF c f, of "set_vertexPositions []" "merge (defaultLine ds)"] assms
      by (simp add: processLineString_def c t Let_def merge_def defaultValue_def
          set_vertexPositions_def new_DynamicObject_def)
  qed
  have pnt: "guids_fresh ds \<and> crsFunction (Some (CArr [])) = Inr p \<longrightarrow>
            (let k = fst (createObject g ds); t = defaultPoint ds
             in k \<notin> keys ds \<and>
                fst (processPoint crsFunction g geometry ds) = None \<and>
                dynamicObjectCollection (snd (processPoint crsFunction g geometry ds)) =
                  dynamicObjectCollection ds @
                    [(k, \<lparr>obj_id = k, geoJson = Some g, point = t_point t, polyline = t_polyline t,
                            polygon = t_polygon t, position = Some p, vertexPositions = None,
                            assignments = 1\<rparr>)])"
  proof
    assume f: "guids_fresh ds \<and> crsFunction (Some (CArr [])) = Inr p"
    obtain k ds1 where c: "createObject g ds = (k, ds1)" by (cases "createObject g ds")
    have t: "defaultPoint ds1 = defaultPoint ds" using createObject_fields(1) [of g ds] c by simp
    show "let k = fst (createObject g ds); t = defaultPoint ds
             in k \<notin> keys ds \<and>
                fst (processPoint crsFunction g geometry ds) = None \<and>
                dynamicObjectCollection (snd (processPoint crsFunction g geometry ds)) =
                  dynamicObjectCollection ds @
                    [(k, \<lparr>obj_id = k, geoJson = Some g, point = t_point t, polyline = t_polyline t,
                            polygon = t_polygon t, position = Some p, vertexPositions = None,
                            assignments = 1\<rparr>)]"
      using single [OF c, of "set_position p" "merge (defaultPoint ds)"] assms f
      by (simp add: processPoint_def c t Let_def merge_def defaultValue_def
          set_position_def new_DynamicObject_def)
  qed
  have pgn: "guids_fresh ds \<longrightarrow>
            (let k = fst (createObject g ds)
             in k \<notin> keys ds \<and>
                fst (processPolygon crsFunction g geometry ds) = Some TypeError \<and>
                dynamicObjectCollection (snd (processPolygon crsFunction g geometry ds)) =
                  dynamicObjectCollection ds @
                    [(k, \<lparr>obj_id = k, geoJson = Some g, point = None, polyline = None,
                            polygon = None, position = None, vertexPositions = None,
                            assignments = 0\<rparr>)])"
  proof
    assume f: "guids_fresh ds"
    obtain k ds1 where c: "createObject g ds = (k, ds1)" by (cases "createObject g ds")
    show "let k = fst (createObject g ds)
             in k \<notin> keys ds \<and>
                fst (processPolygon crsFunction g geometry ds) = Some TypeError \<and>
                dynamicObjectCollection (snd (processPolygon crsFunction g geometry ds)) =
                  dynamicObjectCollection ds @
                    [(k, \<lparr>obj_id = k, geoJson = Some g, point = None, polyline = None,
                            polygon = None, position = None, vertexPositions = None,
                            assignments = 0\<rparr>)]"
      using single [OF c f, of id id] assms
      by (simp add: processPolygon_def c Let_def new_DynamicObject_def)
  qed
  have ring: "guids_fresh ds \<and> gj_coordinates ring_only = Some (CArr [CArr []]) \<longrightarrow>
            (let k = fst (createObject g ds); t = defaultPolygon ds
             in k \<notin> keys ds \<and>
                fst (processPolygon crsFunction g ring_only ds) = None \<and>
                dynamicObjectCollection (snd (processPolygon crsFunction g ring_only ds)) =
                  dynamicObjectCollection ds @
                    [(k, \<lparr>obj_id = k, geoJson = Some g, point = t_point t, polyline = t_polyline t,
                            polygon = t_polygon t, position = None, vertexPositions = Some [],
                            assignments = 1\<rparr>)])"
  proof
    assume f: "guids_fresh ds \<and> gj_coordinates ring_only = Some (CArr [CArr []])"
    obtain k ds1 where c: "createObject g ds = (k, ds1)" by (cases "createObject g ds")
    have t: "defaultPolygon ds1 = defaultPolygon ds" using createObject_fields(3) [of g ds] c by simp
    show "let k = fst (createObject g ds); t = defaultPolygon ds
             in k \<notin> keys ds \<and>
                fst (processPolygon crsFunction g ring_only ds) = None \<and>
                dynamicObjectCollection (snd (processPolygon crsFunction g ring_only ds)) =
                  dynamicObjectCollection ds @
                    [(k, \<lparr>obj_id = k, geoJson = Some g, point = t_point t, polyline = t_polyline t,
                            polygon = t_polygon t, position = None, vertexPositions = Some [],
                            assignments = 1\<rparr>)]"
      using single [OF c, of "set_vertexPositions []" "merge (defaultPolygon ds)"] f
      by (simp add: processPolygon_def c t Let_def merge_def defaultValue_def
          set_vertexPositions_def new_DynamicObject_def)
  qed
  from multi line pnt pgn ring show ?thesis by blast
qed

definition empty_ring_polygon :: geojson where
  "empty_ring_polygon =
     GeoJson (Some ''Polygon'') None Undefined Undefined None None (Some (CArr [CArr []]))"

theorem empty_coordinates_decoding_witness:
  "processMultiPoint (defaultCrsFunction example_core) (empty_geometry ''MultiPoint'')
     (empty_geometry ''MultiPoint'') example_source = (None, example_source) \<and>
   processMultiLineString (defaultCrsFunction example_core) (empty_geometry ''MultiLineString'')
     (empty_geometry ''MultiLineString'') example_source = (None, example_source) \<and>
   processMultiPolygon (defaultCrsFunction example_core) (empty_geometry ''MultiPolygon'')
     (empty_geometry ''MultiPolygon'') example_source = (None, example_source) \<and>
   processLineString (defaultCrsFunction example_core) (empty_geometry ''LineString'')
     (empty_geometry ''LineString'') example_source =
     (None, example_source\<lparr>dynamicObjectCollection :=
        [(Id ''earlier'', new_DynamicObject (Id ''earlier'')),
         (Guid 0, \<lparr>obj_id = Guid 0, geoJson = Some (empty_geometry ''LineString''), point = None,
            polyline = Some ''line'', polygon = None, position = None, vertexPositions = Some [],
            assignments = 1\<rparr>)],
        guids_created := 1\<rparr>) \<and>
   map snd (dynamicObjectCollection (snd
     (processPoint (defaultCrsFunction example_core) (empty_geometry ''Point'')
        (empty_geometry ''Point'') example_source))) =
     [new_DynamicObject (Id ''earlier''),
      \<lparr>obj_id = Guid 0, geoJson = Some (empty_geometry ''Point''), point = Some ''point'',
         polyline = None, polygon = None, position = Some None, vertexPositions = None,
         assignments = 1\<rparr>] \<and>
   fst (processPolygon (defaultCrsFunction example_core) (empty_geometry ''Polygon'')
     (empty_geometry ''Polygon'') example_source) = Some TypeError \<and>
   map snd (dynamicObjectCollection (snd
     (processPolygon (defaultCrsFunction example_core) empty_ring_polygon empty_ring_polygon
        example_source))) =
     [new_DynamicObject (Id ''earlier''),
      \<lparr>obj_id = Guid 0, geoJson = Some empty_ring_polygon, point = None,
         polyline = Some ''outline'', polygon = Some ''fill'', position = None,
         vertexPositions = Some [], assignments = 1\<rparr>]"
proof -
  have c: "gj_coordinates (empty_geometry t) = Some (CArr [])" for t
    by (simp add: empty_geometry_def)
  have r: "gj_coordinates empty_ring_polygon = Some (CArr [CArr []])"
    by (simp add: empty_ring_polygon_def)
  have f: "guids_fresh example_source"
    by (simp add: guids_fresh_def keys_def example_source_def)
  have p: "defaultCrsFunction example_core (Some (CArr [])) = Inr None"
    by (simp add: defaultCrsFunction_def example_core_def)
  have k: "fst (createObject (empty_geometry t) example_source) = Guid 0"
    "fst (createObject empty_ring_polygon example_source) = Guid 0" for t
    by (simp_all add: createObject_def empty_geometry_def empty_ring_polygon_def example_source_def)
  have s: "dynamicObjectCollection example_source = [(Id ''earlier'', new_DynamicObject (Id ''earlier''))]"
    "defaultPoint example_source = \<lparr>t_point = Some ''point'', t_polyline = None, t_polygon = None\<rparr>"
    "defaultLine example_source = \<lparr>t_point = None, t_polyline = Some ''line'', t_polygon = None\<rparr>"
    "defaultPolygon example_source = \<lparr>t_point = None, t_polyline = Some ''outline'', t_polygon = Some ''fill''\<rparr>"
    by (simp_all add: example_source_def)
  have l: "snd (processLineString (defaultCrsFunction example_core) (empty_geometry ''LineString'')
     (empty_geometry ''LineString'') example_source) =
     example_source\<lparr>dynamicObjectCollection := dynamicObjectCollection (snd
       (processLineString (defaultCrsFunction example_core) (empty_geometry ''LineString'')
          (empty_geometry ''LineString'') example_source)), guids_created := 1\<rparr>"
    by (simp add: processLineString_def createObject_def on_object_def c empty_geometry_def
        example_source_def)
  note inst = empty_coordinates_decoding [where geometry = "empty_geometry t" and g = g
      and crsFunction = "defaultCrsFunction example_core" and ds = example_source and p = None
      and ring_only = empty_ring_polygon for t g, OF c]
  show ?thesis
    using inst [of "empty_geometry ''MultiPoint''" "''MultiPoint''"]
      inst [of "empty_geometry ''MultiLineString''" "''MultiLineString''"]
      inst [of "empty_geometry ''MultiPolygon''" "''MultiPolygon''"]
      inst [of "empty_geometry ''LineString''" "''LineString''"]
      inst [of "empty_geometry ''Point''" "''Point''"]
      inst [of "empty_geometry ''Polygon''" "''Polygon''"]
      inst [of "empty_ring_polygon" "''Polygon''"] r f p k s l
    by (cases "processLineString (defaultCrsFunction example_core) (empty_geometry ''LineString'')
     (empty_geometry ''LineString'') example_source") (simp add: Let_def)
qed

subsection \<open>Keys of the entities\<close>

lemma unusedId_probe:
  "(getObject coll (Id finalId) = None \<and> unusedId coll ident finalId i = finalId) \<or>
   (getObject coll (Id finalId) \<noteq> None \<and>
    (\<exists>n\<ge>i. unusedId coll ident finalId i = suffixed ident n \<and>
       getObject coll (Id (suffixed ident n)) = None \<and>
       (\<forall>j. i \<le> j \<and> j < n \<longrightarrow> getObject coll (Id (suffixed ident j)) \<noteq> None)))"
proof (induction coll ident finalId i rule: unusedId.induct)
  case (1 coll ident finalId i)
  show ?case
  proof (cases "getObject coll (Id finalId) = None")
    case True
    then show ?thesis by (simp add: unusedId_free)
  next
    case False
    then have u: "unusedId coll ident finalId i = unusedId coll ident (suffixed ident i) (Suc i)"
      by (simp add: unusedId_taken)
    from 1 [OF False] show ?thesis
    proof (elim disjE conjE exE)
      assume "getObject coll (Id (suffixed ident i)) = None"
        and "unusedId coll ident (suffixed ident i) (Suc i) = suffixed ident i"
      with False u show ?thesis by (intro disjI2 conjI exI [of _ i]) auto
    next
      fix n
      assume a: "getObject coll (Id (suffixed ident i)) \<noteq> None" "Suc i \<le> n"
        "unusedId coll ident (suffixed ident i) (Suc i) = suffixed ident n"
        "getObject coll (Id (suffixed ident n)) = None"
        "\<forall>j. Suc i \<le> j \<and> j < n \<longrightarrow> getObject coll (Id (suffixed ident j)) \<noteq> None"
      have "\<forall>j. i \<le> j \<and> j < n \<longrightarrow> getObject coll (Id (suffixed ident j)) \<noteq> None"
      proof (intro allI impI)
        fix j assume "i \<le> j \<and> j < n"
        then show "getObject coll (Id (suffixed ident j)) \<noteq> None"
          using a(1,5) by (cases "j = i") simp_all
      qed
      with False u a show ?thesis by (intro disjI2 conjI exI [of _ n]) simp_all
    qed
  qed
qed

text \<open>
  Three Features without geometry, with the ids \<^verbatim>\<open>abc_2\<close>,
  \<^verbatim>\<open>abc\<close> and \<^verbatim>\<open>abc\<close>, in this order.
\<close>

definition id_feature :: "string \<Rightarrow> geojson" where
  "id_feature ident = GeoJson (Some ''Feature'') (Some ident) Undefined Null None None None"

definition colliding_features :: geojson where
  "colliding_features =
     GeoJson (Some ''FeatureCollection'') None Undefined Undefined None
       (Some [id_feature ''abc_2'', id_feature ''abc'', id_feature ''abc'']) None"

text \<open>
  C4, as stated, fails: of the two Features that carry the id \<^verbatim>\<open>abc\<close>, the
  second receives the key \<^verbatim>\<open>abc_3\<close>, since \<^verbatim>\<open>abc_2\<close> is the
  key of an earlier entity of the same load.
\<close>

theorem second_abc_gets_abc_3:
  "map fst (dynamicObjectCollection
     (snd (load example_core (initial_registry example_core) (Val colliding_features) example_source))) =
   [Id ''abc_2'', Id ''abc'', Id ''abc_3'']"
  by (simp add: load_unfold handlers_unfold colliding_features_def id_feature_def example_source_def
      unusedId_free unusedId_taken getObject_def createObject_def getOrCreateObject_def suffixed_small)

text \<open>
  C4, amended. A Feature with an \<^verbatim>\<open>id\<close> receives that id as its key when
  no entity of the store has it; otherwise it receives the id with the suffix
  \<^verbatim>\<open>_n\<close>, where \<open>n\<close> is the least number from 2 on for which the
  suffixed key is unused. A node that is not a Feature, or has no \<^verbatim>\<open>id\<close>,
  receives the next generated identifier, which no entity of the store has. So of two
  Features with the same id, the first receives the id and the second the id with
  \<^verbatim>\<open>_2\<close>, provided that neither key is in the store when the first is
  processed and that the first key is the only one added before the second is
  processed.
\<close>

theorem entity_key_assignment:
  "(gj_type g = Some ''Feature'' \<and> gj_id g = Some ident \<longrightarrow>
      (Id ident \<notin> keys ds \<longrightarrow> fst (createObject g ds) = Id ident) \<and>
      (Id ident \<in> keys ds \<longrightarrow>
         (\<exists>n\<ge>2. fst (createObject g ds) = Id (suffixed ident n) \<and>
            Id (suffixed ident n) \<notin> keys ds \<and>
            (\<forall>j. 2 \<le> j \<and> j < n \<longrightarrow> Id (suffixed ident j) \<in> keys ds)))) \<and>
   (gj_type g \<noteq> Some ''Feature'' \<or> gj_id g = None \<longrightarrow>
      fst (createObject g ds) = Guid (guids_created ds) \<and>
      (guids_fresh ds \<longrightarrow> Guid (guids_created ds) \<notin> keys ds)) \<and>
   (gj_type g = Some ''Feature'' \<and> gj_id g = Some ident \<and>
    gj_type g2 = Some ''Feature'' \<and> gj_id g2 = Some ident \<and>
    Id ident \<notin> keys ds \<and> Id (ident @ ''_2'') \<notin> keys ds \<and>
    keys ds1 = insert (Id ident) (keys ds) \<longrightarrow>
      fst (createObject g ds) = Id ident \<and> keys (snd (createObject g ds)) = insert (Id ident) (keys ds) \<and>
      fst (createObject g2 ds1) = Id (ident @ ''_2''))"
proof (intro conjI impI)
  assume a: "gj_type g = Some ''Feature'' \<and> gj_id g = Some ident"
  then have k: "fst (createObject g ds) = Id (unusedId (dynamicObjectCollection ds) ident ident 2)"
    by (simp add: createObject_def)
  show "fst (createObject g ds) = Id ident" if "Id ident \<notin> keys ds"
    using that k by (simp add: unusedId_free getObject_None_iff keys_def)
  show "\<exists>n\<ge>2. fst (createObject g ds) = Id (suffixed ident n) \<and>
            Id (suffixed ident n) \<notin> keys ds \<and>
            (\<forall>j. 2 \<le> j \<and> j < n \<longrightarrow> Id (suffixed ident j) \<in> keys ds)"
    if "Id ident \<in> keys ds"
    using that k unusedId_probe [of "dynamicObjectCollection ds" ident ident 2]
    by (simp add: getObject_None_iff keys_def)
next
  assume a: "gj_type g \<noteq> Some ''Feature'' \<or> gj_id g = None"
  then show "fst (createObject g ds) = Guid (guids_created ds)"
    by (auto simp: createObject_def split: option.splits)
  show "Guid (guids_created ds) \<notin> keys ds" if "guids_fresh ds"
    using that by (auto simp: guids_fresh_def)
next
  assume a: "gj_type g = Some ''Feature'' \<and> gj_id g = Some ident \<and>
    gj_type g2 = Some ''Feature'' \<and> gj_id g2 = Some ident \<and>
    Id ident \<notin> keys ds \<and> Id (ident @ ''_2'') \<notin> keys ds \<and>
    keys ds1 = insert (Id ident) (keys ds)"
  then show k1: "fst (createObject g ds) = Id ident"
    by (simp add: createObject_def unusedId_free getObject_None_iff keys_def)
  then show "keys (snd (createObject g ds)) = insert (Id ident) (keys ds)"
    by (simp add: keys_createObject)
  from a have "getObject (dynamicObjectCollection ds1) (Id ident) \<noteq> None"
    "getObject (dynamicObjectCollection ds1) (Id (suffixed ident 2)) = None"
    by (simp_all add: getObject_None_iff keys_def [symmetric] suffixed_small)
  then have "unusedId (dynamicObjectCollection ds1) ident ident 2 = suffixed ident 2"
    by (simp add: unusedId_taken unusedId_free)
  with a show "fst (createObject g2 ds1) = Id (ident @ ''_2'')"
    by (simp add: createObject_def suffixed_small)
qed

definition two_abc_features :: geojson where
  "two_abc_features =
     GeoJson (Some ''FeatureCollection'') None Undefined Undefined None
       (Some [id_feature ''abc'', id_feature ''abc'']) None"

theorem entity_key_assignment_witness:
  "fst (createObject (id_feature ''abc'') example_source) = Id ''abc'' \<and>
   keys (snd (createObject (id_feature ''abc'') example_source)) = {Id ''abc'', Id ''earlier''} \<and>
   fst (createObject (id_feature ''abc'') (snd (createObject (id_feature ''abc'') example_source))) =
     Id ''abc_2'' \<and>
   fst (createObject point_feature example_source) = Guid 0 \<and>
   Guid 0 \<notin> keys example_source \<and>
   map fst (dynamicObjectCollection
     (snd (load example_core (initial_registry example_core) (Val two_abc_features) example_source))) =
     [Id ''abc'', Id ''abc_2'']"
proof -
  have t: "gj_type (id_feature ''abc'') = Some ''Feature''" "gj_id (id_feature ''abc'') = Some ''abc''"
    "gj_id point_feature = None"
    by (simp_all add: id_feature_def point_feature_def)
  have k: "keys example_source = {Id ''earlier''}" "guids_created example_source = 0"
    by (simp_all add: keys_def example_source_def)
  have f: "guids_fresh example_source"
    by (simp add: guids_fresh_def k)
  have l: "map fst (dynamicObjectCollection
     (snd (load example_core (initial_registry example_core) (Val two_abc_features) example_source))) =
     [Id ''abc'', Id ''abc_2'']"
    by (simp add: load_unfold handlers_unfold two_abc_features_def id_feature_def example_source_def
      unusedId_free unusedId_taken getObject_def createObject_def getOrCreateObject_def suffixed_small)
  have k1: "fst (createObject (id_feature ''abc'') example_source) = Id ''abc''"
    by (simp add: createObject_def t unusedId_free getObject_def example_source_def)
  have a: "keys (snd (createObject (id_feature ''abc'') example_source)) =
      insert (Id ''abc'') (keys example_source)"
    by (simp add: keys_createObject k1)
  show ?thesis
    using entity_key_assignment [of "id_feature ''abc''" "''abc''" example_source "id_feature ''abc''"
        "snd (createObject (id_feature ''abc'') example_source)"]
      entity_key_assignment [of point_feature "''abc''" example_source "id_feature ''abc''" example_source]
      t k f l a
    by simp
qed

subsection \<open>Entities of a FeatureCollection\<close>


lemma size_geometry_element [termination_simp]:
  "gj_geometries g = Some gs \<Longrightarrow> x \<in> set gs \<Longrightarrow> size x < size g"
  using size_geometries [of g gs] size_list_estimation' [of x gs "size x" size]
  by simp




text \<open>The back-references of the entities of the store, in the order of the store.\<close>

definition entity_refs :: "('p, 'g) data_source \<Rightarrow> geojson option list" where
  "entity_refs ds = map (\<lambda>(k, obj). geoJson obj) (dynamicObjectCollection ds)"

lemma entity_refs_on_object:
  assumes "\<And>obj. geoJson (f obj) = geoJson obj"
  shows "entity_refs (on_object k f ds) = entity_refs ds"
  using assms by (auto simp: entity_refs_def on_object_def update_object_def)

lemma entity_refs_writes [simp]:
  "entity_refs (on_object k (merge t) ds) = entity_refs ds"
  "entity_refs (on_object k (set_position p) ds) = entity_refs ds"
  "entity_refs (on_object k (set_vertexPositions ps) ds) = entity_refs ds"
  by (simp_all add: entity_refs_on_object merge_def set_position_def set_vertexPositions_def)



























subsection \<open>When the decoding of a FeatureCollection completes\<close>










































subsection \<open>Features without a geometry\<close>

text \<open>
  C6. A Feature whose \<^verbatim>\<open>geometry\<close> is \<^verbatim>\<open>null\<close> makes the
  Feature handler create exactly one entity, under an unused key, and do nothing else:
  the entity is as \<^verbatim>\<open>createObject\<close> left it, with the back-reference to
  the Feature, no position, no vertex positions and no graphics of a template. A Feature
  without a \<^verbatim>\<open>geometry\<close> field makes the handler throw MissingGeometry.
  For a document that is such a Feature and whose transform is there,
  \<^verbatim>\<open>load\<close> therefore leaves a store of exactly that one entity,
  respectively returns a promise rejected with MissingGeometry.
\<close>

theorem feature_without_geometry:
  "(gj_geometry doc = Undefined \<longrightarrow> processFeature core crsFunction doc ds = (Some MissingGeometry, ds)) \<and>
   (gj_geometry doc = Null \<and> guids_fresh ds \<longrightarrow>
      (let k = fst (createObject doc ds)
       in fst (processFeature core crsFunction doc ds) = None \<and> k \<notin> keys ds \<and>
          dynamicObjectCollection (snd (processFeature core crsFunction doc ds)) =
            dynamicObjectCollection ds @
              [(k, \<lparr>obj_id = k, geoJson = Some doc, point = None, polyline = None,
                      polygon = None, position = None, vertexPositions = None,
                      assignments = 0\<rparr>)])) \<and>
   (gj_type doc = Some ''Feature'' \<and> crsPromise core reg doc = Inr (Fulfilled crsFunction) \<longrightarrow>
      (gj_geometry doc = Null \<longrightarrow>
         fst (load core reg (Val doc) ds) = Inr (Fulfilled ()) \<and>
         dynamicObjectCollection (snd (load core reg (Val doc) ds)) =
           (let k = (case gj_id doc of None \<Rightarrow> Guid (guids_created ds) | Some ident \<Rightarrow> Id ident)
            in [(k, \<lparr>obj_id = k, geoJson = Some doc, point = None, polyline = None,
                       polygon = None, position = None, vertexPositions = None,
                       assignments = 0\<rparr>)])) \<and>
      (gj_geometry doc = Undefined \<longrightarrow>
         load core reg (Val doc) ds =
           (Inr (Rejected MissingGeometry), ds\<lparr>dynamicObjectCollection := []\<rparr>)))"
proof (intro conjI impI)
  assume "gj_geometry doc = Undefined"
  then show "processFeature core crsFunction doc ds = (Some MissingGeometry, ds)"
    by (simp add: processFeature_def)
next
  assume a: "gj_geometry doc = Null \<and> guids_fresh ds"
  then show "let k = fst (createObject doc ds)
       in fst (processFeature core crsFunction doc ds) = None \<and> k \<notin> keys ds \<and>
          dynamicObjectCollection (snd (processFeature core crsFunction doc ds)) =
            dynamicObjectCollection ds @
              [(k, \<lparr>obj_id = k, geoJson = Some doc, point = None, polyline = None,
                      polygon = None, position = None, vertexPositions = None,
                      assignments = 0\<rparr>)]"
    using createObject_key_unused [of ds doc] createObject_appends [of ds doc]
    by (simp add: processFeature_def Let_def new_DynamicObject_def keys_def getObject_None_iff)
next
  assume "gj_type doc = Some ''Feature'' \<and> crsPromise core reg doc = Inr (Fulfilled crsFunction)"
    and "gj_geometry doc = Null"
  then show "fst (load core reg (Val doc) ds) = Inr (Fulfilled ())"
    by (simp add: load_def load_begin_def load_then_def geoJsonObjectTypes_def js_lookup_def js_key_def
        processFeature_def)
next
  assume "gj_type doc = Some ''Feature'' \<and> crsPromise core reg doc = Inr (Fulfilled crsFunction)"
    and "gj_geometry doc = Null"
  then show "dynamicObjectCollection (snd (load core reg (Val doc) ds)) =
           (let k = (case gj_id doc of None \<Rightarrow> Guid (guids_created ds) | Some ident \<Rightarrow> Id ident)
            in [(k, \<lparr>obj_id = k, geoJson = Some doc, point = None, polyline = None,
                       polygon = None, position = None, vertexPositions = None,
                       assignments = 0\<rparr>)])"
    by (auto simp: load_def load_begin_def load_then_def geoJsonObjectTypes_def js_lookup_def js_key_def clear_def
        processFeature_def createObject_cleared new_DynamicObject_def Let_def split: option.splits)
next
  assume "gj_type doc = Some ''Feature'' \<and> crsPromise core reg doc = Inr (Fulfilled crsFunction)"
    and "gj_geometry doc = Undefined"
  then show "load core reg (Val doc) ds =
           (Inr (Rejected MissingGeometry), ds\<lparr>dynamicObjectCollection := []\<rparr>)"
    by (simp add: load_def load_begin_def load_then_def geoJsonObjectTypes_def js_lookup_def js_key_def clear_def
        processFeature_def)
qed

theorem feature_without_geometry_witness:
  "processFeature example_core (defaultCrsFunction example_core) broken_feature example_source =
     (Some MissingGeometry, example_source) \<and>
   guids_fresh example_source \<and>
   fst (processFeature example_core (defaultCrsFunction example_core) placeholder_feature example_source) = None \<and>
   dynamicObjectCollection
     (snd (processFeature example_core (defaultCrsFunction example_core) placeholder_feature example_source)) =
     [(Id ''earlier'', new_DynamicObject (Id ''earlier'')),
      (Id ''abc'', \<lparr>obj_id = Id ''abc'', geoJson = Some placeholder_feature, point = None,
         polyline = None, polygon = None, position = None, vertexPositions = None,
         assignments = 0\<rparr>)] \<and>
   fst (load example_core (initial_registry example_core) (Val placeholder_feature) example_source) =
     Inr (Fulfilled ()) \<and>
   dynamicObjectCollection
     (snd (load example_core (initial_registry example_core) (Val placeholder_feature) example_source)) =
     [(Id ''abc'', \<lparr>obj_id = Id ''abc'', geoJson = Some placeholder_feature, point = None,
         polyline = None, polygon = None, position = None, vertexPositions = None,
         assignments = 0\<rparr>)] \<and>
   load example_core (initial_registry example_core) (Val broken_feature) example_source =
     (Inr (Rejected MissingGeometry), example_source\<lparr>dynamicObjectCollection := []\<rparr>)"
proof -
  have c: "crsPromise example_core (initial_registry example_core) placeholder_feature =
      Inr (Fulfilled (defaultCrsFunction example_core))"
    "crsPromise example_core (initial_registry example_core) broken_feature =
      Inr (Fulfilled (defaultCrsFunction example_core))"
    by (simp_all add: crsPromise_def placeholder_feature_def broken_feature_def)
  have t: "gj_type placeholder_feature = Some ''Feature''" "gj_type broken_feature = Some ''Feature''"
    by (simp_all add: placeholder_feature_def broken_feature_def)
  have g: "gj_geometry placeholder_feature = Null" "gj_geometry broken_feature = Undefined"
    "gj_id placeholder_feature = Some ''abc''"
    by (simp_all add: placeholder_feature_def broken_feature_def)
  have f: "guids_fresh example_source"
    by (simp add: guids_fresh_def keys_def example_source_def)
  have k: "fst (createObject placeholder_feature example_source) = Id ''abc''"
    by (simp add: createObject_def g t unusedId_free getObject_def example_source_def)
  have s: "dynamicObjectCollection example_source = [(Id ''earlier'', new_DynamicObject (Id ''earlier''))]"
    by (simp add: example_source_def)
  show ?thesis
    using feature_without_geometry [where doc = placeholder_feature
        and crsFunction = "defaultCrsFunction example_core" and ds = example_source
        and core = example_core and reg = "initial_registry example_core"]
      feature_without_geometry [where doc = broken_feature
        and crsFunction = "defaultCrsFunction example_core" and ds = example_source
        and core = example_core and reg = "initial_registry example_core"] c t g f k s
    by (simp add: Let_def)
qed

subsection \<open>Resolution of a linked CRS\<close>

text \<open>
  A registry with one resolver keyed by href and one keyed by type; each answers with a
  transform that tells which of the two ran.
\<close>

definition link_registry :: "coords option registry" where
  "link_registry =
     \<lparr>crsNames = js_lookup [] (inherited_transform example_core),
      crsLinkHrefs = js_lookup
        [(''http://example.com/crs'', (\<lambda>p. Inr (Fulfilled (\<lambda>c. Inl (ExternalError ''by href'')))))]
        (inherited_resolver example_core),
      crsLinkTypes = js_lookup
        [(''proj4'', (\<lambda>p. Inr (Fulfilled (\<lambda>c. Inl (ExternalError ''by type'')))))]
        (inherited_resolver example_core)\<rparr>"

definition link_properties :: "string \<Rightarrow> string \<Rightarrow> crs_properties" where
  "link_properties h t = \<lparr>p_name = None, p_href = Some h, p_type = Some t\<rparr>"

definition linked_doc :: "string \<Rightarrow> string \<Rightarrow> geojson" where
  "linked_doc h t =
     GeoJson (Some ''Point'') None
       (Val \<lparr>crs_type = Some ''link'', crs_properties = Val (link_properties h t)\<rparr>)
       Undefined None None (Some (CArr [CNum 1, CNum 2]))"

text \<open>
  C8. For a document whose \<^verbatim>\<open>crs\<close> has type \<^verbatim>\<open>"link"\<close>: a
  resolver registered under \<^verbatim>\<open>properties.href\<close> is the one that is called,
  whatever the type-keyed table holds; the resolver registered under
  \<^verbatim>\<open>properties.type\<close> is called only when the href-keyed table has none;
  the resolver is called with the link's properties and what it returns is the promise of
  the transform; when both tables miss, \<^verbatim>\<open>load\<close> throws
  UnresolvableCrsLink.
\<close>

theorem link_resolution_order:
  assumes "gj_crs doc = Val c" and "crs_type c = Some ''link''" and "crs_properties c = Val p"
  shows "(crsLinkHrefs reg (js_key (p_href p)) = Some byHref \<longrightarrow>
            crsPromise core reg doc = byHref p) \<and>
         (crsLinkHrefs reg (js_key (p_href p)) = None \<and>
          crsLinkTypes reg (js_key (p_type p)) = Some byType \<longrightarrow>
            crsPromise core reg doc = byType p) \<and>
         (crsLinkHrefs reg (js_key (p_href p)) = None \<and>
          crsLinkTypes reg (js_key (p_type p)) = None \<longrightarrow>
            crsPromise core reg doc = Inl (UnresolvableCrsLink p) \<and>
            (geoJsonObjectTypes core (js_key (gj_type doc)) \<noteq> None \<longrightarrow>
               load core reg (Val doc) ds = (Inl (UnresolvableCrsLink p), ds)))"
  using assms by (auto simp: crsPromise_def load_def load_begin_def)

theorem link_resolution_order_witness:
  "crsPromise example_core link_registry (linked_doc ''http://example.com/crs'' ''proj4'') =
     Inr (Fulfilled (\<lambda>c. Inl (ExternalError ''by href''))) \<and>
   crsPromise example_core link_registry (linked_doc ''http://example.com/other'' ''proj4'') =
     Inr (Fulfilled (\<lambda>c. Inl (ExternalError ''by type''))) \<and>
   load example_core link_registry (Val (linked_doc ''http://example.com/other'' ''ogcwkt'')) example_source =
     (Inl (UnresolvableCrsLink (link_properties ''http://example.com/other'' ''ogcwkt'')), example_source)"
proof -
  have a: "gj_crs (linked_doc h t) = Val \<lparr>crs_type = Some ''link'', crs_properties = Val (link_properties h t)\<rparr>"
    for h t by (simp add: linked_doc_def)
  have h1: "crsLinkHrefs link_registry (js_key (p_href (link_properties ''http://example.com/crs'' t))) =
      Some (\<lambda>p. Inr (Fulfilled (\<lambda>c. Inl (ExternalError ''by href''))))" for t
    by (simp add: link_registry_def link_properties_def js_key_def js_lookup_def
        example_core_inherits_nothing)
  have h2: "crsLinkHrefs link_registry (js_key (p_href (link_properties ''http://example.com/other'' t))) = None" for t
    by (simp add: link_registry_def link_properties_def js_key_def js_lookup_def
        example_core_inherits_nothing)
  have t1: "crsLinkTypes link_registry (js_key (p_type (link_properties h ''proj4''))) =
      Some (\<lambda>p. Inr (Fulfilled (\<lambda>c. Inl (ExternalError ''by type''))))" for h
    by (simp add: link_registry_def link_properties_def js_key_def js_lookup_def
        example_core_inherits_nothing)
  have t2: "crsLinkTypes link_registry (js_key (p_type (link_properties h ''ogcwkt''))) = None" for h
    by (simp add: link_registry_def link_properties_def js_key_def js_lookup_def
        example_core_inherits_nothing)
  have ty: "geoJsonObjectTypes example_core (js_key (gj_type (linked_doc h t))) \<noteq> None" for h t
    by (simp add: linked_doc_def geoJsonObjectTypes_def js_lookup_def js_key_def)
  note order = link_resolution_order [where core = example_core and reg = link_registry
      and ds = example_source and c = "\<lparr>crs_type = Some ''link'', crs_properties = Val (link_properties h t)\<rparr>"
      and doc = "linked_doc h t" and p = "link_properties h t" for h t, OF a]
  show ?thesis
    using order [of "''http://example.com/crs''" "''proj4''"]
      order [of "''http://example.com/other''" "''proj4''"]
      order [of "''http://example.com/other''" "''ogcwkt''"] h1 h2 t1 t2 ty
    by simp
qed

subsection \<open>Documents that differ in their crs field only\<close>

text \<open>
  A node without its own \<^verbatim>\<open>crs\<close> field, and a state in which the
  back-reference of every entity is taken without the \<^verbatim>\<open>crs\<close> field of the
  node it refers to. Two states that agree after \<open>forget_crs\<close> hold the same keys in
  the same order, with the same graphics, positions and vertex positions, and their
  back-references differ at most in that field.
\<close>

definition without_crs :: "geojson \<Rightarrow> geojson" where
  "without_crs g =
     GeoJson (gj_type g) (gj_id g) Undefined (gj_geometry g) (gj_geometries g) (gj_features g)
       (gj_coordinates g)"

definition forget_ref :: "('p, 'g) dynamic_object \<Rightarrow> ('p, 'g) dynamic_object" where
  "forget_ref obj = obj\<lparr>geoJson := map_option without_crs (geoJson obj)\<rparr>"

definition forget_crs :: "('p, 'g) data_source \<Rightarrow> ('p, 'g) data_source" where
  "forget_crs ds =
     ds\<lparr>dynamicObjectCollection := map (\<lambda>(k, obj). (k, forget_ref obj)) (dynamicObjectCollection ds)\<rparr>"

lemma without_crs_fields [simp]:
  "gj_type (without_crs g) = gj_type g" "gj_id (without_crs g) = gj_id g"
  "gj_geometry (without_crs g) = gj_geometry g" "gj_geometries (without_crs g) = gj_geometries g"
  "gj_features (without_crs g) = gj_features g" "gj_coordinates (without_crs g) = gj_coordinates g"
  "gj_crs (without_crs g) = Undefined" "without_crs (without_crs g) = without_crs g"
  by (simp_all add: without_crs_def)

lemma forget_crs_fields [simp]:
  "defaultPoint (forget_crs ds) = defaultPoint ds" "defaultLine (forget_crs ds) = defaultLine ds"
  "defaultPolygon (forget_crs ds) = defaultPolygon ds"
  "changed_raised (forget_crs ds) = changed_raised ds"
  "guids_created (forget_crs ds) = guids_created ds"
  by (simp_all add: forget_crs_def)

lemma forget_crs_idem [simp]: "forget_crs (forget_crs ds) = forget_crs ds"
  by (simp add: forget_crs_def forget_ref_def comp_def case_prod_unfold option.map_comp)

lemma getObject_forget:
  "getObject (map (\<lambda>(k, obj). (k, forget_ref obj)) coll) k = map_option forget_ref (getObject coll k)"
  by (induction coll) (auto simp: getObject_def)

lemma unusedId_forget:
  "unusedId (map (\<lambda>(k, obj). (k, forget_ref obj)) coll) ident finalId i = unusedId coll ident finalId i"
proof (induction coll ident finalId i rule: unusedId.induct)
  case (1 coll ident finalId i)
  show ?case
  proof (cases "getObject coll (Id finalId) = None")
    case True
    then show ?thesis by (simp add: unusedId_free getObject_forget)
  next
    case False
    with 1 show ?thesis by (simp add: unusedId_taken getObject_forget)
  qed
qed

lemma update_object_forget:
  assumes "\<And>obj. forget_ref (f obj) = f' (forget_ref obj)"
  shows "map (\<lambda>(k, obj). (k, forget_ref obj)) (update_object k f coll) =
         update_object k f' (map (\<lambda>(k, obj). (k, forget_ref obj)) coll)"
  using assms by (induction coll) (auto simp: update_object_def)

lemma forget_ref_new [simp]: "forget_ref (new_DynamicObject k) = new_DynamicObject k"
  by (simp add: forget_ref_def new_DynamicObject_def)

lemma getOrCreateObject_forget:
  "map (\<lambda>(k, obj). (k, forget_ref obj)) (getOrCreateObject k coll) =
   getOrCreateObject k (map (\<lambda>(k, obj). (k, forget_ref obj)) coll)"
  by (cases "getObject coll k") (simp_all add: getOrCreateObject_def getObject_forget)

lemma createObject_forget:
  "createObject (without_crs g) (forget_crs ds) = apsnd forget_crs (createObject g ds)"
proof -
  have u: "map (\<lambda>(k, obj). (k, forget_ref obj)) (update_object k (\<lambda>obj. obj\<lparr>geoJson := Some g\<rparr>) coll) =
      update_object k (\<lambda>obj. obj\<lparr>geoJson := Some (without_crs g)\<rparr>)
        (map (\<lambda>(k, obj). (k, forget_ref obj)) coll)" for k and coll :: "('a, 'b) collection"
    by (rule update_object_forget) (simp add: forget_ref_def)
  show ?thesis
    by (cases "gj_id g")
      (simp_all add: createObject_def forget_crs_def Let_def u getOrCreateObject_forget unusedId_forget)
qed

lemma forget_ref_writes:
  "forget_ref (merge t obj) = merge t (forget_ref obj)"
  "forget_ref (set_position p obj) = set_position p (forget_ref obj)"
  "forget_ref (set_vertexPositions ps obj) = set_vertexPositions ps (forget_ref obj)"
  by (simp_all add: forget_ref_def merge_def set_position_def set_vertexPositions_def)

lemma on_object_forget [simp]:
  "on_object k (merge t) (forget_crs ds) = forget_crs (on_object k (merge t) ds)"
  "on_object k (set_position p) (forget_crs ds) = forget_crs (on_object k (set_position p) ds)"
  "on_object k (set_vertexPositions ps) (forget_crs ds) =
     forget_crs (on_object k (set_vertexPositions ps) ds)"
  by (simp_all add: on_object_def forget_crs_def
      update_object_forget [where f = "merge t" and f' = "merge t", OF forget_ref_writes(1)]
      update_object_forget [where f = "set_position p" and f' = "set_position p", OF forget_ref_writes(2)]
      update_object_forget [where f = "set_vertexPositions ps" and f' = "set_vertexPositions ps",
        OF forget_ref_writes(3)])
text \<open>
  Every handler commutes with \<open>forget_crs\<close>: it reads the type and the id of the
  node it is given as the identity source, never its \<^verbatim>\<open>crs\<close> field.
\<close>

lemma processPoint_forget:
  "processPoint crsFunction (without_crs g) geometry (forget_crs ds) =
   apsnd forget_crs (processPoint crsFunction g geometry ds)"
  by (cases "createObject g ds")
    (simp add: processPoint_def createObject_forget Let_def split: sum.splits)

lemma processLineString_forget:
  "processLineString crsFunction (without_crs g) geometry (forget_crs ds) =
   apsnd forget_crs (processLineString crsFunction g geometry ds)"
  by (cases "createObject g ds")
    (simp add: processLineString_def createObject_forget Let_def split: sum.splits)

lemma processPolygon_forget:
  "processPolygon crsFunction (without_crs g) geometry (forget_crs ds) =
   apsnd forget_crs (processPolygon crsFunction g geometry ds)"
  by (cases "createObject g ds")
    (simp add: processPolygon_def createObject_forget Let_def split: sum.splits)

lemma processMultiPoint_loop_forget:
  "processMultiPoint_loop crsFunction (without_crs g) cs (forget_crs ds) =
   apsnd forget_crs (processMultiPoint_loop crsFunction g cs ds)"
proof (induction cs arbitrary: ds)
  case Nil
  show ?case by simp
next
  case (Cons c cs)
  show ?case
    by (cases "createObject g ds")
      (simp add: createObject_forget Let_def Cons.IH split: sum.splits)
qed

lemma processMultiLineString_loop_forget:
  "processMultiLineString_loop crsFunction (without_crs g) cs (forget_crs ds) =
   apsnd forget_crs (processMultiLineString_loop crsFunction g cs ds)"
proof (induction cs arbitrary: ds)
  case Nil
  show ?case by simp
next
  case (Cons c cs)
  show ?case
    by (cases "createObject g ds")
      (simp add: createObject_forget Let_def Cons.IH split: sum.splits)
qed

lemma processMultiPolygon_rounds_forget:
  "processMultiPolygon_rounds crsFunction k ring n (forget_crs ds) =
   apsnd forget_crs (processMultiPolygon_rounds crsFunction k ring n ds)"
  by (induction n arbitrary: ds) (simp_all split: sum.splits)

lemma processMultiPolygon_loop_forget:
  "processMultiPolygon_loop crsFunction (without_crs g) cs (forget_crs ds) =
   apsnd forget_crs (processMultiPolygon_loop crsFunction g cs ds)"
proof (induction cs arbitrary: ds)
  case Nil
  show ?case by simp
next
  case (Cons c cs)
  show ?case
  proof (cases "createObject g ds")
    case (Pair k ds1)
    show ?thesis
    proof (cases "js_elements (projr (js_index (Some c) 0))")
      case (Inl e)
      with Pair show ?thesis
        by (cases c) (simp_all add: createObject_forget Let_def)
    next
      case (Inr vs)
      obtain r ds2 where q: "processMultiPolygon_rounds crsFunction k (projr (js_index (Some c) 0))
          (length vs) ds1 = (r, ds2)"
        by (cases "processMultiPolygon_rounds crsFunction k (projr (js_index (Some c) 0)) (length vs) ds1")
      with Pair Inr show ?thesis
        by (cases c; cases r)
          (simp_all add: createObject_forget Let_def processMultiPolygon_rounds_forget Cons.IH)
    qed
  qed
qed

lemma multi_forget:
  "processMultiPoint crsFunction (without_crs g) geometry (forget_crs ds) =
   apsnd forget_crs (processMultiPoint crsFunction g geometry ds)"
  "processMultiLineString crsFunction (without_crs g) geometry (forget_crs ds) =
   apsnd forget_crs (processMultiLineString crsFunction g geometry ds)"
  "processMultiPolygon crsFunction (without_crs g) geometry (forget_crs ds) =
   apsnd forget_crs (processMultiPolygon crsFunction g geometry ds)"
  by (simp_all add: processMultiPoint_def processMultiLineString_def processMultiPolygon_def
      processMultiPoint_loop_forget processMultiLineString_loop_forget processMultiPolygon_loop_forget
      split: sum.splits)

lemma geometryHandler_forget:
  "geometryHandler core h crsFunction (without_crs g) geometry (forget_crs ds) =
   apsnd forget_crs (geometryHandler core h crsFunction g geometry ds)"
  and processGeometryCollection_forget:
  "processGeometryCollection core crsFunction (without_crs g) gc (forget_crs ds) =
   apsnd forget_crs (processGeometryCollection core crsFunction g gc ds)"
  and processGeometryCollection_loop_forget:
  "processGeometryCollection_loop core crsFunction (without_crs g) gs (forget_crs ds) =
   apsnd forget_crs (processGeometryCollection_loop core crsFunction g gs ds)"
proof (induction core h crsFunction g geometry ds and core crsFunction g gc ds and core crsFunction g gs ds
    rule: geometryHandler_processGeometryCollection_processGeometryCollection_loop.induct)
  case (1 core crsFunction geojson geometry ds)
  then show ?case by simp
next
  case (2 core crsFunction geojson geometry ds)
  show ?case by (simp add: processLineString_forget)
next
  case (3 core crsFunction geojson geometry ds)
  show ?case by (simp add: multi_forget)
next
  case (4 core crsFunction geojson geometry ds)
  show ?case by (simp add: multi_forget)
next
  case (5 core crsFunction geojson geometry ds)
  show ?case by (simp add: multi_forget)
next
  case (6 core crsFunction geojson geometry ds)
  show ?case by (simp add: processPoint_forget)
next
  case (7 core crsFunction geojson geometry ds)
  show ?case by (simp add: processPolygon_forget)
next
  case (8 core r crsFunction geojson geometry ds)
  show ?case by simp
next
  case (9 core crsFunction geojson geometryCollection ds)
  then show ?case by (cases "gj_geometries geometryCollection") simp_all
next
  case (10 core crsFunction geojson ds)
  show ?case by simp
next
  case (11 core crsFunction geojson geometry rest ds)
  show ?case
  proof (cases "geometryTypes core (js_key (gj_type geometry))")
    case None
    then show ?thesis by simp
  next
    case (Some handler)
    obtain r ds1 where q: "geometryHandler core handler crsFunction geojson geometry ds = (r, ds1)"
      by (cases "geometryHandler core handler crsFunction geojson geometry ds")
    show ?thesis
    proof (cases r)
      case None
      with "11.IH"(1) [OF Some] "11.IH"(2) [OF Some q [symmetric] None] Some q show ?thesis by simp
    next
      case (Some e)
      with "11.IH"(1) [OF \<open>geometryTypes core (js_key (gj_type geometry)) = Some handler\<close>]
        \<open>geometryTypes core (js_key (gj_type geometry)) = Some handler\<close> q show ?thesis by simp
    qed
  qed
qed

lemma processFeature_forget:
  "processFeature core crsFunction (without_crs feature) (forget_crs ds) =
   apsnd forget_crs (processFeature core crsFunction feature ds)"
  by (cases "gj_geometry feature")
    (simp_all add: processFeature_def createObject_forget geometryHandler_forget split: option.splits)

text \<open>A geometry handler reads the coordinates and the geometries of its geometry, nothing else.\<close>

lemma geometryHandler_geometry_cong:
  assumes "gj_coordinates geometry = gj_coordinates geometry'"
    and "gj_geometries geometry = gj_geometries geometry'"
  shows "geometryHandler core h crsFunction g geometry ds = geometryHandler core h crsFunction g geometry' ds"
  using assms
  by (cases h)
    (simp_all add: processLineString_def processMultiLineString_def processMultiPoint_def
      processMultiPolygon_def processPoint_def processPolygon_def)

lemma typeHandler_without_crs:
  assumes "without_crs doc1 = without_crs doc2"
  shows "apsnd forget_crs (typeHandler core h crsFunction doc1 ds) =
         apsnd forget_crs (typeHandler core h crsFunction doc2 ds)"
proof -
  from assms have f: "gj_features doc1 = gj_features doc2" "gj_coordinates doc1 = gj_coordinates doc2"
    "gj_geometries doc1 = gj_geometries doc2"
    by (metis without_crs_fields(5), metis without_crs_fields(6), metis without_crs_fields(4))
  show ?thesis
  proof (cases h)
    case ProcessFeature
    then show ?thesis
      using processFeature_forget [of core crsFunction doc1 ds] processFeature_forget [of core crsFunction doc2 ds]
        assms by simp
  next
    case ProcessFeatureCollection
    with f show ?thesis by (simp add: processFeatureCollection_def)
  next
    case (Geometry handler)
    have "apsnd forget_crs (geometryHandler core handler crsFunction doc1 doc1 ds) =
        geometryHandler core handler crsFunction (without_crs doc1) doc1 (forget_crs ds)"
      by (simp add: geometryHandler_forget)
    also have "\<dots> = geometryHandler core handler crsFunction (without_crs doc2) doc2 (forget_crs ds)"
      using assms f by (simp add: geometryHandler_geometry_cong [of doc1 doc2])
    also have "\<dots> = apsnd forget_crs (geometryHandler core handler crsFunction doc2 doc2 ds)"
      by (simp add: geometryHandler_forget)
    finally show ?thesis using Geometry by simp
  qed
qed

lemma forget_crs_changed:
  "forget_crs (ds\<lparr>changed_raised := n\<rparr>) = (forget_crs ds)\<lparr>changed_raised := n\<rparr>"
  by (simp add: forget_crs_def)

text \<open>
  Two documents that differ in their \<^verbatim>\<open>crs\<close> field only and whose CRS
  blocks end the same way are loaded the same way.
\<close>

lemma load_without_crs:
  assumes "without_crs doc1 = without_crs doc2"
    and "crsPromise core reg doc1 = crsPromise core reg doc2"
  shows "fst (load core reg (Val doc1) ds) = fst (load core reg (Val doc2) ds) \<and>
         forget_crs (snd (load core reg (Val doc1) ds)) = forget_crs (snd (load core reg (Val doc2) ds))"
proof -
  from assms(1) have t: "gj_type doc1 = gj_type doc2"
    by (metis without_crs_fields(1))
  show ?thesis
  proof (cases "geoJsonObjectTypes core (js_key (gj_type doc2))")
    case None
    with t show ?thesis by (simp add: load_def load_begin_def)
  next
    case (Some handler)
    show ?thesis
    proof (cases "crsPromise core reg doc2")
      case (Inl e)
      with Some t assms(2) show ?thesis by (simp add: load_def load_begin_def)
    next
      case (Inr promise)
      show ?thesis
      proof (cases promise)
        case (Fulfilled crsFunction)
        let ?cleared = "ds\<lparr>dynamicObjectCollection := []\<rparr>"
        obtain r1 s1 where r1: "typeHandler core handler crsFunction doc1 ?cleared = (r1, s1)"
          by (cases "typeHandler core handler crsFunction doc1 ?cleared")
        obtain r2 s2 where r2: "typeHandler core handler crsFunction doc2 ?cleared = (r2, s2)"
          by (cases "typeHandler core handler crsFunction doc2 ?cleared")
        from typeHandler_without_crs [OF assms(1), of core handler crsFunction ?cleared] r1 r2
        have e: "r1 = r2" "forget_crs s1 = forget_crs s2" by simp_all
        from e(2) have "changed_raised s1 = changed_raised s2"
          by (metis forget_crs_fields(4))
        with e Some t assms(2) Inr Fulfilled r1 r2 show ?thesis
          by (cases r2) (simp_all add: load_def load_begin_def load_then_def clear_def forget_crs_changed)
      next
        case (Rejected e)
        with Some t assms(2) Inr show ?thesis
          by (simp add: load_def load_begin_def load_then_def)
      next
        case Pending
        with Some t assms(2) Inr show ?thesis
          by (simp add: load_def load_begin_def load_then_def)
      next
        case NotThenable
        with Some t assms(2) Inr show ?thesis
          by (simp add: load_def load_begin_def load_then_def)
      qed
    qed
  qed
qed

lemma crsPromise_named:
  assumes "gj_crs doc = Val c" and "crs_type c = Some ''name''" and "crs_properties c = Val p"
    and "p_name p = Some name" and "crsNames reg name = Some crsFunction"
  shows "crsPromise core reg doc = Inr (Fulfilled crsFunction)"
  using assms by (simp add: crsPromise_def js_key_def)

lemma crsPromise_without_crs: "crsPromise core reg (without_crs doc) = Inr (Fulfilled (defaultCrsFunction core))"
  by (simp add: crsPromise_def)

definition named_crs :: "string \<Rightarrow> crs" where
  "named_crs name =
     \<lparr>crs_type = Some ''name'',
      crs_properties = Val \<lparr>p_name = Some name, p_href = None, p_type = None\<rparr>\<rparr>"

definition crs84_point :: geojson where
  "crs84_point =
     GeoJson (Some ''Point'') None (Val (named_crs ''urn:ogc:def:crs:OGC:1.3:CRS84'')) Undefined
       None None (Some (CArr [CNum 1, CNum 2]))"

definition epsg4326_point :: geojson where
  "epsg4326_point =
     GeoJson (Some ''Point'') None (Val (named_crs ''EPSG:4326'')) Undefined
       None None (Some (CArr [CNum 1, CNum 2]))"

definition plain_point :: geojson where
  "plain_point =
     GeoJson (Some ''Point'') None Undefined Undefined None None (Some (CArr [CNum 1, CNum 2]))"

text \<open>
  C9. With the names table of the source, a document whose \<^verbatim>\<open>crs\<close> names
  \<^verbatim>\<open>urn:ogc:def:crs:OGC:1.3:CRS84\<close> is loaded as the same document without
  the \<^verbatim>\<open>crs\<close> field is: both CRS blocks yield the default transform, the
  two calls end the same way, and the two states are the same up to the
  \<^verbatim>\<open>crs\<close> field of the nodes that the entities refer back to (an entity
  created for the document itself refers back to the document as it was given).
\<close>

theorem crs84_name_same_as_no_crs:
  assumes "crsNames reg = crsNames (initial_registry core)"
    and "gj_crs doc = Val c" and "crs_type c = Some ''name''" and "crs_properties c = Val p"
    and "p_name p = Some ''urn:ogc:def:crs:OGC:1.3:CRS84''"
  shows "crsPromise core reg doc = Inr (Fulfilled (defaultCrsFunction core)) \<and>
         crsPromise core reg (without_crs doc) = Inr (Fulfilled (defaultCrsFunction core)) \<and>
         fst (load core reg (Val doc) ds) = fst (load core reg (Val (without_crs doc)) ds) \<and>
         forget_crs (snd (load core reg (Val doc) ds)) =
           forget_crs (snd (load core reg (Val (without_crs doc)) ds))"
proof -
  have "crsNames reg ''urn:ogc:def:crs:OGC:1.3:CRS84'' = Some (defaultCrsFunction core)"
    by (simp add: assms(1) initial_registry_def js_lookup_def)
  from crsPromise_named [OF assms(2-5) this]
  have c: "crsPromise core reg doc = Inr (Fulfilled (defaultCrsFunction core))" .
  with load_without_crs [of doc "without_crs doc" core reg ds] show ?thesis
    by (simp add: crsPromise_without_crs)
qed

theorem crs84_name_same_as_no_crs_witness:
  "without_crs crs84_point = plain_point \<and>
   load example_core (initial_registry example_core) (Val plain_point) example_source =
     (Inr (Fulfilled ()),
      example_source\<lparr>dynamicObjectCollection :=
         [(Guid 0, \<lparr>obj_id = Guid 0, geoJson = Some plain_point, point = Some ''point'',
             polyline = None, polygon = None, position = Some (Some (CNum 1)),
             vertexPositions = None, assignments = 1\<rparr>)],
         changed_raised := 1, guids_created := 1\<rparr>) \<and>
   fst (load example_core (initial_registry example_core) (Val crs84_point) example_source) =
     Inr (Fulfilled ()) \<and>
   forget_crs (snd (load example_core (initial_registry example_core) (Val crs84_point) example_source)) =
     example_source\<lparr>dynamicObjectCollection :=
         [(Guid 0, \<lparr>obj_id = Guid 0, geoJson = Some plain_point, point = Some ''point'',
             polyline = None, polygon = None, position = Some (Some (CNum 1)),
             vertexPositions = None, assignments = 1\<rparr>)],
         changed_raised := 1, guids_created := 1\<rparr>"
proof -
  have w: "without_crs crs84_point = plain_point"
    by (simp add: without_crs_def crs84_point_def plain_point_def)
  have l: "load example_core (initial_registry example_core) (Val plain_point) example_source =
     (Inr (Fulfilled ()),
      example_source\<lparr>dynamicObjectCollection :=
         [(Guid 0, \<lparr>obj_id = Guid 0, geoJson = Some plain_point, point = Some ''point'',
             polyline = None, polygon = None, position = Some (Some (CNum 1)),
             vertexPositions = None, assignments = 1\<rparr>)],
         changed_raised := 1, guids_created := 1\<rparr>)"
    by (simp add: load_unfold handlers_unfold plain_point_def example_source_def example_core_def)
  have f: "forget_crs (example_source\<lparr>dynamicObjectCollection :=
         [(Guid 0, \<lparr>obj_id = Guid 0, geoJson = Some plain_point, point = Some ''point'',
             polyline = None, polygon = None, position = Some (Some (CNum 1)),
             vertexPositions = None, assignments = 1\<rparr>)],
         changed_raised := 1, guids_created := 1\<rparr>) =
     example_source\<lparr>dynamicObjectCollection :=
         [(Guid 0, \<lparr>obj_id = Guid 0, geoJson = Some plain_point, point = Some ''point'',
             polyline = None, polygon = None, position = Some (Some (CNum 1)),
             vertexPositions = None, assignments = 1\<rparr>)],
         changed_raised := 1, guids_created := 1\<rparr>"
    by (simp add: forget_crs_def forget_ref_def without_crs_def plain_point_def)
  have a: "gj_crs crs84_point = Val (named_crs ''urn:ogc:def:crs:OGC:1.3:CRS84'')"
    "crs_type (named_crs ''urn:ogc:def:crs:OGC:1.3:CRS84'') = Some ''name''"
    "crs_properties (named_crs ''urn:ogc:def:crs:OGC:1.3:CRS84'') =
       Val \<lparr>p_name = Some ''urn:ogc:def:crs:OGC:1.3:CRS84'', p_href = None, p_type = None\<rparr>"
    "p_name \<lparr>p_name = Some ''urn:ogc:def:crs:OGC:1.3:CRS84'', p_href = None, p_type = None\<rparr> =
       Some ''urn:ogc:def:crs:OGC:1.3:CRS84''"
    by (simp_all add: crs84_point_def named_crs_def)
  show ?thesis
    using crs84_name_same_as_no_crs [OF refl a, of example_core example_source] w l f
    by simp
qed

subsection \<open>The second pre-seeded CRS name\<close>

text \<open>
  C10. The names table of the source has the two entries
  \<^verbatim>\<open>urn:ogc:def:crs:OGC:1.3:CRS84\<close> and \<^verbatim>\<open>EPSG:4326\<close>, both
  bound to the default transform; so, with that table, a document whose
  \<^verbatim>\<open>crs\<close> names \<^verbatim>\<open>EPSG:4326\<close> is loaded as the same document
  without the \<^verbatim>\<open>crs\<close> field is: the two calls end the same way, and the
  two states are the same up to the \<^verbatim>\<open>crs\<close> field of the nodes that the
  entities refer back to (an entity created for the document itself refers back to the
  document as it was given).
\<close>

theorem epsg4326_name_same_as_no_crs:
  assumes "crsNames reg = crsNames (initial_registry core)"
    and "gj_crs doc = Val c" and "crs_type c = Some ''name''" and "crs_properties c = Val p"
    and "p_name p = Some ''EPSG:4326''"
  shows "crsNames reg ''EPSG:4326'' = Some (defaultCrsFunction core) \<and>
         crsNames reg ''urn:ogc:def:crs:OGC:1.3:CRS84'' = Some (defaultCrsFunction core) \<and>
         crsPromise core reg doc = crsPromise core reg (without_crs doc) \<and>
         fst (load core reg (Val doc) ds) = fst (load core reg (Val (without_crs doc)) ds) \<and>
         forget_crs (snd (load core reg (Val doc) ds)) =
           forget_crs (snd (load core reg (Val (without_crs doc)) ds))"
proof -
  have n: "crsNames reg ''EPSG:4326'' = Some (defaultCrsFunction core)"
    "crsNames reg ''urn:ogc:def:crs:OGC:1.3:CRS84'' = Some (defaultCrsFunction core)"
    by (simp_all add: assms(1) initial_registry_def js_lookup_def)
  from crsPromise_named [OF assms(2-5) n(1)]
  have c: "crsPromise core reg doc = Inr (Fulfilled (defaultCrsFunction core))" .
  with load_without_crs [of doc "without_crs doc" core reg ds] n show ?thesis
    by (simp add: crsPromise_without_crs)
qed

theorem epsg4326_name_same_as_no_crs_witness:
  "crsNames (initial_registry example_core) ''EPSG:4326'' = Some (defaultCrsFunction example_core) \<and>
   without_crs epsg4326_point = plain_point \<and>
   fst (load example_core (initial_registry example_core) (Val epsg4326_point) example_source) =
     fst (load example_core (initial_registry example_core) (Val plain_point) example_source) \<and>
   forget_crs (snd (load example_core (initial_registry example_core) (Val epsg4326_point) example_source)) =
     forget_crs (snd (load example_core (initial_registry example_core) (Val plain_point) example_source)) \<and>
   map (\<lambda>(k, obj). position obj) (dynamicObjectCollection
     (snd (load example_core (initial_registry example_core) (Val epsg4326_point) example_source))) =
     [Some (Some (CNum 1))]"
proof -
  have w: "without_crs epsg4326_point = plain_point"
    by (simp add: without_crs_def epsg4326_point_def plain_point_def)
  have l: "map (\<lambda>(k, obj). position obj) (dynamicObjectCollection
     (snd (load example_core (initial_registry example_core) (Val epsg4326_point) example_source))) =
     [Some (Some (CNum 1))]"
    by (simp add: load_unfold handlers_unfold epsg4326_point_def named_crs_def initial_registry_def
        example_source_def example_core_def)
  have a: "gj_crs epsg4326_point = Val (named_crs ''EPSG:4326'')"
    "crs_type (named_crs ''EPSG:4326'') = Some ''name''"
    "crs_properties (named_crs ''EPSG:4326'') =
       Val \<lparr>p_name = Some ''EPSG:4326'', p_href = None, p_type = None\<rparr>"
    "p_name \<lparr>p_name = Some ''EPSG:4326'', p_href = None, p_type = None\<rparr> = Some ''EPSG:4326''"
    by (simp_all add: epsg4326_point_def named_crs_def)
  show ?thesis
    using epsg4326_name_same_as_no_crs [OF refl a, of example_core example_source] w l
    by simp
qed

end
